theory Spec2Isabelle
  imports Complex_Main "HOL-Library.Word"
begin

section \<open>Python values, exceptions and effects\<close>

text \<open>
  The three scripts (\<^verbatim>\<open>main.py\<close>, \<^verbatim>\<open>main1.py\<close>, \<^verbatim>\<open>main_aws.py\<close>) are glue between
  a web server, a telephony library and two cloud speech services. Every call into one of
  these collaborators is an effect, recorded in order in a trace, and its outcome is a
  parameter of the model. A raise is the \<open>Inl\<close> branch of a sum.
\<close>

text \<open>
  The classes of exceptions that occur. \<^verbatim>\<open>except Exception\<close> catches instances of
  \<^verbatim>\<open>Exception\<close> only: \<^verbatim>\<open>SystemExit\<close>, \<^verbatim>\<open>KeyboardInterrupt\<close> and
  \<^verbatim>\<open>asyncio.CancelledError\<close> derive from \<^verbatim>\<open>BaseException\<close> directly.
\<close>

datatype exn_class =
    Exception
  | KeyError
  | IndexError
  | TypeError
  | JSONDecodeError
  | UnicodeDecodeError
  | ProviderError
  | SystemExit
  | KeyboardInterrupt
  | CancelledError

datatype py_exn = PyExn (exn_class: exn_class) (exn_str: string)

fun subclass_of_Exception :: "exn_class \<Rightarrow> bool" where
  "subclass_of_Exception SystemExit = False"
| "subclass_of_Exception KeyboardInterrupt = False"
| "subclass_of_Exception CancelledError = False"
| "subclass_of_Exception _ = True"

definition isinstance_Exception :: "py_exn \<Rightarrow> bool" where
  "isinstance_Exception e = subclass_of_Exception (exn_class e)"

text \<open>Parsed JSON documents and service responses, as Python sees them.\<close>

datatype pyval =
    PNone
  | PBool bool
  | PInt int
  | PStr string
  | PList "pyval list"
  | PDict "(string \<times> pyval) list"

type_synonym bytes = "8 word list"

datatype log_level = DEBUG | ERROR

text \<open>The argument interpolated into an f-string log message.\<close>

datatype log_arg = ArgStr string | ArgExn py_exn | ArgVal pyval

record outbound_call_args =
  arg_base_url :: string
  arg_to_phone :: string
  arg_from_phone :: string
  arg_config_keywords :: "string list"

datatype effect =
    Log log_level string log_arg
  | TimeTime
  | StartTranscriptionJob string string string string
  | GetTranscriptionJob string
  | TimeSleep nat
  | RequestsGet pyval
  | ResponseJson
  | StartStreamTranscription string nat string
  | SynthesizeSpeech string string string
  | AudioStreamRead
  | OutboundCallInit outbound_call_args
  | OutboundCallStart
  | RequestJson

type_synonym 'a outcome = "effect list \<times> (py_exn + 'a)"

text \<open>
  \<^verbatim>\<open>try: body  except Exception as e: logger.error(f"{msg}{e}"); raise\<close>:
  an instance of \<^verbatim>\<open>Exception\<close> is logged and raised again, anything else passes
  through untouched.
\<close>

definition log_and_reraise :: "string \<Rightarrow> 'a outcome \<Rightarrow> 'a outcome" where
  "log_and_reraise msg r =
     (case snd r of
        Inr v \<Rightarrow> r
      | Inl e \<Rightarrow>
          if isinstance_Exception e then (fst r @ [Log ERROR msg (ArgExn e)], Inl e)
          else r)"

text \<open>\<^verbatim>\<open>sep.join(parts)\<close>\<close>

fun join :: "string \<Rightarrow> string list \<Rightarrow> string" where
  "join sep [] = []"
| "join sep [x] = x"
| "join sep (x # y # ys) = x @ sep @ join sep (y # ys)"

section \<open>Streaming transcription (main1.py)\<close>

text \<open>
  The events of \<^verbatim>\<open>amazon_transcribe.model\<close>: a \<^verbatim>\<open>TranscriptEvent\<close> holds
  \<^verbatim>\<open>transcript.results\<close>, each \<^verbatim>\<open>Result\<close> has the flag \<^verbatim>\<open>is_partial\<close>
  (optional in the library) and its \<^verbatim>\<open>alternatives\<close>, each with a \<^verbatim>\<open>transcript\<close>.
\<close>

record alternative =
  alt_transcript :: string

record result =
  is_partial :: "bool option"
  alternatives :: "alternative list"

record transcript =
  results :: "result list"

record transcript_event =
  transcript :: transcript

text \<open>\<^verbatim>\<open>MyTranscriptResultHandler\<close>: the state is the field \<^verbatim>\<open>self.transcription\<close>.\<close>

record handler =
  transcription :: string

definition handler_init :: handler where
  "handler_init = \<lparr>transcription = ''''\<rparr>"

text \<open>
  The body of the loop of \<^verbatim>\<open>handle_transcript_event\<close> for one result:
  \<^verbatim>\<open>if result.is_partial is False: self.transcription += " ".join([...])\<close>, then the
  debug log.
\<close>

definition handle_result :: "handler \<Rightarrow> result \<Rightarrow> effect list \<times> handler" where
  "handle_result h r =
     (if is_partial r = Some False then
        (let h' = h\<lparr>transcription :=
                      transcription h @ join '' '' (map alt_transcript (alternatives r))\<rparr>
         in ([Log DEBUG ''Transcription so far: '' (ArgStr (transcription h'))], h'))
      else ([], h))"

fun handle_results :: "handler \<Rightarrow> result list \<Rightarrow> effect list \<times> handler" where
  "handle_results h [] = ([], h)"
| "handle_results h (r # rs) =
     (let (es, h') = handle_result h r;
          (es', h'') = handle_results h' rs
      in (es @ es', h''))"

definition handle_transcript_event :: "handler \<Rightarrow> transcript_event \<Rightarrow> effect list \<times> handler" where
  "handle_transcript_event h transcript_event =
     handle_results h (results (transcript transcript_event))"

text \<open>
  \<^verbatim>\<open>handle_events\<close> is the library's loop over the result stream: each event is passed
  to \<^verbatim>\<open>handle_transcript_event\<close>. The stream either yields an event or raises
  (\<open>Inl\<close>); the end of the list is the end of the stream.
\<close>

type_synonym result_stream = "(py_exn + transcript_event) list"

fun handle_events :: "handler \<Rightarrow> result_stream \<Rightarrow> effect list \<times> (py_exn + handler)" where
  "handle_events h [] = ([], Inr h)"
| "handle_events h (Inl e # rest) = ([], Inl e)"
| "handle_events h (Inr ev # rest) =
     (let (es, h') = handle_transcript_event h ev;
          (es', r) = handle_events h' rest
      in (es @ es', r))"

text \<open>The accumulator fed with a finite sequence of events, from a fresh handler.\<close>

definition final_transcription :: "transcript_event list \<Rightarrow> string" where
  "final_transcription evs =
     (case snd (handle_events handler_init (map Inr evs)) of
        Inr h \<Rightarrow> transcription h
      | Inl e \<Rightarrow> '''')"

record stream_request =
  language_code :: string
  media_sample_rate_hz :: nat
  media_encoding :: string
  audio_stream :: "bytes list"

text \<open>
  \<^verbatim>\<open>transcribe_client.start_stream_transcription\<close> is the provider: it raises or
  gives the result stream.
\<close>

type_synonym transcribe_streaming_client = "stream_request \<Rightarrow> py_exn + result_stream"

definition transcribe_audio_stream ::
  "transcribe_streaming_client \<Rightarrow> bytes list \<Rightarrow> string outcome" where
  "transcribe_audio_stream start_stream_transcription audio =
     log_and_reraise ''Error in Transcribe streaming: ''
       (case start_stream_transcription
               \<lparr>language_code = ''en-US'', media_sample_rate_hz = 8000,
                media_encoding = ''pcm'', audio_stream = audio\<rparr> of
          Inl e \<Rightarrow> ([StartStreamTranscription ''en-US'' 8000 ''pcm''], Inl e)
        | Inr result_stream \<Rightarrow>
            (case handle_events handler_init result_stream of
               (es, Inl e) \<Rightarrow> (StartStreamTranscription ''en-US'' 8000 ''pcm'' # es, Inl e)
             | (es, Inr h) \<Rightarrow>
                 (StartStreamTranscription ''en-US'' 8000 ''pcm'' # es, Inr (transcription h))))"

text \<open>Helpers for the statements: the events of a stream, its first fault.\<close>

fun first_fault :: "result_stream \<Rightarrow> py_exn option" where
  "first_fault [] = None"
| "first_fault (Inl e # rest) = Some e"
| "first_fault (Inr ev # rest) = first_fault rest"

fun events_of :: "result_stream \<Rightarrow> transcript_event list" where
  "events_of [] = []"
| "events_of (Inl e # rest) = events_of rest"
| "events_of (Inr ev # rest) = ev # events_of rest"

definition final_results :: "transcript_event list \<Rightarrow> result list" where
  "final_results evs =
     filter (\<lambda>r. is_partial r = Some False) (concat (map (\<lambda>ev. results (transcript ev)) evs))"

definition result_text :: "result \<Rightarrow> string" where
  "result_text r = join '' '' (map alt_transcript (alternatives r))"

definition mk_event :: "bool \<Rightarrow> string \<Rightarrow> transcript_event" where
  "mk_event partial text =
     \<lparr>transcript = \<lparr>results = [\<lparr>is_partial = Some partial,
                                   alternatives = [\<lparr>alt_transcript = text\<rparr>]\<rparr>]\<rparr>\<rparr>"

text \<open>An event with one final result that carries several alternatives, best first.\<close>

definition mk_event_alternatives :: "string list \<Rightarrow> transcript_event" where
  "mk_event_alternatives texts =
     \<lparr>transcript = \<lparr>results = [\<lparr>is_partial = Some False,
                                   alternatives = map (\<lambda>text. \<lparr>alt_transcript = text\<rparr>) texts\<rparr>]\<rparr>\<rparr>"

section \<open>Speech synthesis (main1.py, main_aws.py)\<close>

text \<open>
  The Polly client: \<^verbatim>\<open>synthesize_speech(Text, VoiceId, OutputFormat)\<close> raises or gives
  a response. \<^verbatim>\<open>response["AudioStream"]\<close> raises \<^verbatim>\<open>KeyError\<close> when the key is
  missing; \<^verbatim>\<open>.read()\<close> raises or gives all the bytes of the stream.
\<close>

datatype polly_response = PollyResponse (AudioStream: "(py_exn + bytes) option")

type_synonym polly_client = "string \<Rightarrow> string \<Rightarrow> string \<Rightarrow> py_exn + polly_response"

definition read_audio_stream :: "polly_response \<Rightarrow> bytes outcome" where
  "read_audio_stream response =
     (case AudioStream response of
        None \<Rightarrow> ([], Inl (PyExn KeyError ''AudioStream''))
      | Some (Inl e) \<Rightarrow> ([AudioStreamRead], Inl e)
      | Some (Inr audio) \<Rightarrow> ([AudioStreamRead], Inr audio))"

text \<open>\<^verbatim>\<open>synthesize_speech\<close> of main1.py, with its two optional parameters.\<close>

definition synthesize_speech_with ::
  "polly_client \<Rightarrow> string \<Rightarrow> string \<Rightarrow> string \<Rightarrow> bytes outcome" where
  "synthesize_speech_with polly text voice_id output_format =
     log_and_reraise ''Error in Polly TTS: ''
       (case polly text voice_id output_format of
          Inl e \<Rightarrow> ([SynthesizeSpeech text voice_id output_format], Inl e)
        | Inr response \<Rightarrow>
            (case read_audio_stream response of
               (es, Inl e) \<Rightarrow> (SynthesizeSpeech text voice_id output_format # es, Inl e)
             | (es, Inr audio) \<Rightarrow>
                 (SynthesizeSpeech text voice_id output_format # es
                    @ [Log DEBUG ''Polly synthesis successful'' (ArgStr [])],
                  Inr audio)))"

text \<open>The call with the defaults, as \<^verbatim>\<open>CustomSynthesizer.synthesize\<close> makes it.\<close>

definition synthesize_speech :: "polly_client \<Rightarrow> string \<Rightarrow> bytes outcome" where
  "synthesize_speech polly text = synthesize_speech_with polly text ''Joanna'' ''mp3''"

text \<open>\<^verbatim>\<open>AWSPollySynthesizer.synthesize\<close> of main_aws.py.\<close>

definition synthesize :: "polly_client \<Rightarrow> string \<Rightarrow> bytes outcome" where
  "synthesize polly text =
     log_and_reraise ''Error synthesizing speech with AWS Polly: ''
       (case polly text ''Joanna'' ''mp3'' of
          Inl e \<Rightarrow> ([SynthesizeSpeech text ''Joanna'' ''mp3''], Inl e)
        | Inr response \<Rightarrow>
            (case read_audio_stream response of
               (es, r) \<Rightarrow> (SynthesizeSpeech text ''Joanna'' ''mp3'' # es, r)))"

fun is_synthesis_call :: "effect \<Rightarrow> bool" where
  "is_synthesis_call (SynthesizeSpeech text voice_id output_format) = True"
| "is_synthesis_call _ = False"

fun is_stream_start :: "effect \<Rightarrow> bool" where
  "is_stream_start (StartStreamTranscription language rate encoding) = True"
| "is_stream_start _ = False"

text \<open>What the two synthesis functions must return, read off the provider's answers.\<close>

definition synthesis_result :: "polly_client \<Rightarrow> string \<Rightarrow> string \<Rightarrow> string \<Rightarrow> py_exn + bytes" where
  "synthesis_result polly text voice_id output_format =
     (case polly text voice_id output_format of
        Inl e \<Rightarrow> Inl e
      | Inr response \<Rightarrow>
          (case AudioStream response of
             None \<Rightarrow> Inl (PyExn KeyError ''AudioStream'')
           | Some r \<Rightarrow> r))"

section \<open>Outbound calls and the endpoints (main.py, main_aws.py)\<close>

text \<open>
  The module constants that reach \<^verbatim>\<open>OutboundCall\<close>. The configuration objects
  (\<^verbatim>\<open>CONFIG_MANAGER\<close>, \<^verbatim>\<open>AGENT_CONFIG\<close>, ...) are opaque; the model keeps the
  names of the keywords they are passed under.
\<close>

record config =
  BASE_URL :: string
  TWILIO_PHONE :: string

text \<open>
  The telephony library: constructing an \<^verbatim>\<open>OutboundCall\<close> and calling its
  \<^verbatim>\<open>start()\<close> either succeed (\<open>None\<close>) or raise.
\<close>

record telephony =
  outbound_call_init :: "outbound_call_args \<Rightarrow> py_exn option"
  outbound_call_start :: "outbound_call_args \<Rightarrow> py_exn option"

text \<open>
  \<^verbatim>\<open>try: body  except Exception as e: logger.error(f"{msg}{e}")\<close>: an instance of
  \<^verbatim>\<open>Exception\<close> is logged and the function returns \<^verbatim>\<open>None\<close>.
\<close>

definition log_and_swallow :: "string \<Rightarrow> unit outcome \<Rightarrow> unit outcome" where
  "log_and_swallow msg r =
     (case snd r of
        Inr v \<Rightarrow> r
      | Inl e \<Rightarrow>
          if isinstance_Exception e then (fst r @ [Log ERROR msg (ArgExn e)], Inr ())
          else r)"

text \<open>The \<^verbatim>\<open>try\<close> body shared by the two versions of \<^verbatim>\<open>start_outbound_call\<close>.\<close>

definition construct_and_start :: "telephony \<Rightarrow> outbound_call_args \<Rightarrow> unit outcome" where
  "construct_and_start tel args =
     (case outbound_call_init tel args of
        Some e \<Rightarrow> ([OutboundCallInit args], Inl e)
      | None \<Rightarrow>
          (case outbound_call_start tel args of
             Some e \<Rightarrow> ([OutboundCallInit args, OutboundCallStart], Inl e)
           | None \<Rightarrow>
               ([OutboundCallInit args, OutboundCallStart,
                 Log DEBUG ''Outbound call started to '' (ArgStr (arg_to_phone args))],
                Inr ())))"

text \<open>
  \<^verbatim>\<open>start_outbound_call\<close> of main.py. \<^verbatim>\<open>if to_phone:\<close> is false for \<^verbatim>\<open>None\<close> and
  for the empty string.
\<close>

definition start_outbound_call :: "telephony \<Rightarrow> config \<Rightarrow> string option \<Rightarrow> unit outcome" where
  "start_outbound_call tel cfg to_phone =
     (case to_phone of
        None \<Rightarrow> ([], Inr ())
      | Some p \<Rightarrow>
          if p = [] then ([], Inr ())
          else log_and_swallow ''Error starting outbound call: ''
                 (construct_and_start tel
                    \<lparr>arg_base_url = BASE_URL cfg, arg_to_phone = p,
                     arg_from_phone = TWILIO_PHONE cfg,
                     arg_config_keywords =
                       [''config_manager'', ''agent_config'', ''twilio_config'',
                        ''synthesizer_config'']\<rparr>))"

text \<open>\<^verbatim>\<open>start_outbound_call\<close> of main_aws.py.\<close>

definition start_outbound_call_aws :: "telephony \<Rightarrow> config \<Rightarrow> string option \<Rightarrow> unit outcome" where
  "start_outbound_call_aws tel cfg to_phone =
     (case to_phone of
        None \<Rightarrow> ([], Inr ())
      | Some p \<Rightarrow>
          if p = [] then ([], Inr ())
          else log_and_swallow ''Error starting outbound call: ''
                 (construct_and_start tel
                    \<lparr>arg_base_url = BASE_URL cfg, arg_to_phone = p,
                     arg_from_phone = TWILIO_PHONE cfg,
                     arg_config_keywords =
                       [''config_manager'', ''agent_config'', ''synthesizer'',
                        ''transcriber'']\<rparr>))"

text \<open>\<^verbatim>\<open>POST /start_outbound_call\<close>, in main.py and in main_aws.py.\<close>

definition api_start_outbound_call :: "telephony \<Rightarrow> config \<Rightarrow> string option \<Rightarrow> pyval outcome" where
  "api_start_outbound_call tel cfg to_phone =
     (case start_outbound_call tel cfg to_phone of
        (es, Inl e) \<Rightarrow> (es, Inl e)
      | (es, Inr u) \<Rightarrow> (es, Inr (PDict [(''status'', PStr ''success'')])))"

definition api_start_outbound_call_aws :: "telephony \<Rightarrow> config \<Rightarrow> string option \<Rightarrow> pyval outcome" where
  "api_start_outbound_call_aws tel cfg to_phone =
     (case start_outbound_call_aws tel cfg to_phone of
        (es, Inl e) \<Rightarrow> (es, Inl e)
      | (es, Inr u) \<Rightarrow> (es, Inr (PDict [(''status'', PStr ''success'')])))"

text \<open>Whatever the telephony library raises is an instance of \<^verbatim>\<open>Exception\<close>.\<close>

definition raises_only_Exception :: "telephony \<Rightarrow> bool" where
  "raises_only_Exception tel =
     (\<forall>args e. (outbound_call_init tel args = Some e \<or> outbound_call_start tel args = Some e)
        \<longrightarrow> isinstance_Exception e)"

text \<open>
  The handler function \<^verbatim>\<open>inbound_call\<close> that main.py and main_aws.py register with
  \<^verbatim>\<open>@app.post("/inbound_call")\<close> (the same text in both files). A request is seen
  through the outcome of \<^verbatim>\<open>await request.json()\<close>: the parsed body, or what the await
  raises. That can be an instance of \<^verbatim>\<open>Exception\<close> (\<^verbatim>\<open>JSONDecodeError\<close>,
  \<^verbatim>\<open>UnicodeDecodeError\<close>) or not (\<^verbatim>\<open>asyncio.CancelledError\<close>).
\<close>

record request =
  json :: "py_exn + pyval"

definition inbound_call :: "request \<Rightarrow> pyval outcome" where
  "inbound_call request =
     (case json request of
        Inr payload \<Rightarrow>
          ([RequestJson, Log DEBUG ''Inbound call payload: '' (ArgVal payload)],
           Inr (PDict [(''status'', PStr ''call received'')]))
      | Inl e \<Rightarrow>
          if isinstance_Exception e then
            ([RequestJson, Log ERROR ''Error processing inbound call: '' (ArgExn e)],
             Inr (PDict [(''status'', PStr ''error'')]))
          else ([RequestJson], Inl e))"

text \<open>
  The routes of the application, in the order in which the module registers them: first
  \<^verbatim>\<open>app.include_router(telephony_server.get_router())\<close> (main.py line 85, main_aws.py
  line 137), then the decorated functions \<^verbatim>\<open>root\<close>, \<^verbatim>\<open>api_start_outbound_call\<close> and
  \<^verbatim>\<open>inbound_call\<close>. The router of the telephony server holds one POST route for the
  \<^verbatim>\<open>url\<close> of each inbound call configuration, here \<^verbatim>\<open>"/inbound_call"\<close>; its other
  routes are at other paths. A request is served by the first route that matches.
\<close>

datatype http_method = GET | POST

datatype route_target = TelephonyInbound | Root | ApiStartOutboundCall | InboundCall

type_synonym route = "http_method \<times> string \<times> route_target"

definition telephony_router :: "string list \<Rightarrow> route list" where
  "telephony_router urls = map (\<lambda>url. (POST, url, TelephonyInbound)) urls"

definition app_routes :: "route list" where
  "app_routes =
     telephony_router [''/inbound_call'']
       @ [(GET, ''/'', Root),
          (POST, ''/start_outbound_call'', ApiStartOutboundCall),
          (POST, ''/inbound_call'', InboundCall)]"

fun dispatch :: "route list \<Rightarrow> http_method \<Rightarrow> string \<Rightarrow> route_target option" where
  "dispatch [] method path = None"
| "dispatch ((m, p, target) # routes) method path =
     (if m = method \<and> p = path then Some target else dispatch routes method path)"

text \<open>
  What the application answers to \<^verbatim>\<open>POST /inbound_call\<close>. The route of the telephony
  library is a collaborator.
\<close>

definition post_inbound_call :: "(request \<Rightarrow> pyval outcome) \<Rightarrow> request \<Rightarrow> pyval outcome" where
  "post_inbound_call telephony_inbound request =
     (case dispatch app_routes POST ''/inbound_call'' of
        Some InboundCall \<Rightarrow> inbound_call request
      | Some TelephonyInbound \<Rightarrow> telephony_inbound request
      | _ \<Rightarrow> ([], Inr (PDict [(''detail'', PStr ''Not Found'')])))"

text \<open>Concrete requests and a concrete telephony route for the examples.\<close>

definition json_request :: "pyval \<Rightarrow> request" where
  "json_request payload = \<lparr>json = Inr payload\<rparr>"

definition undecodable_request :: request where
  "undecodable_request = \<lparr>json = Inl (PyExn UnicodeDecodeError ''invalid start byte'')\<rparr>"

definition cancelled_request :: request where
  "cancelled_request = \<lparr>json = Inl (PyExn CancelledError [])\<rparr>"

text \<open>
  A telephony route that expects the form fields of the telephony provider and answers
  HTTP 422 to a request that has none.
\<close>

definition form_validating_route :: "request \<Rightarrow> pyval outcome" where
  "form_validating_route request = ([], Inr (PDict [(''detail'', PStr ''Unprocessable Entity'')]))"

text \<open>Concrete collaborators for the examples.\<close>

definition example_config :: config where
  "example_config = \<lparr>BASE_URL = ''example.ngrok.io'', TWILIO_PHONE = ''+15550000000''\<rparr>"

text \<open>A telephony library whose \<^verbatim>\<open>start()\<close> raises an ordinary error.\<close>

definition faulty_telephony :: telephony where
  "faulty_telephony =
     \<lparr>outbound_call_init = (\<lambda>args. None),
      outbound_call_start = (\<lambda>args. Some (PyExn ProviderError ''call rejected''))\<rparr>"

text \<open>A telephony library whose \<^verbatim>\<open>start()\<close> raises \<^verbatim>\<open>SystemExit\<close>.\<close>

definition exiting_telephony :: telephony where
  "exiting_telephony =
     \<lparr>outbound_call_init = (\<lambda>args. None),
      outbound_call_start = (\<lambda>args. Some (PyExn SystemExit ''1''))\<rparr>"

section \<open>Batch transcription (main_aws.py)\<close>

text \<open>Sequencing of steps that may raise.\<close>

definition then_do :: "py_exn + 'a \<Rightarrow> ('a \<Rightarrow> py_exn + 'b) \<Rightarrow> py_exn + 'b" where
  "then_do r f = (case r of Inl e \<Rightarrow> Inl e | Inr v \<Rightarrow> f v)"

text \<open>\<^verbatim>\<open>str(n)\<close> for an integer: its decimal digits.\<close>

definition digit :: "nat \<Rightarrow> char" where
  "digit d = ''0123456789'' ! d"

function str_nat :: "nat \<Rightarrow> string" where
  "str_nat n = (if n < 10 then [digit n] else str_nat (n div 10) @ [digit (n mod 10)])"
  by pat_completeness auto
termination
  by (relation "measure id") auto

declare str_nat.simps [simp del]

definition str_int :: "int \<Rightarrow> string" where
  "str_int i = (if i < 0 then CHR ''-'' # str_nat (nat (- i)) else str_nat (nat i))"

text \<open>\<^verbatim>\<open>int(x)\<close> for a float: truncation towards zero.\<close>

definition py_int :: "real \<Rightarrow> int" where
  "py_int x = (if 0 \<le> x then \<lfloor>x\<rfloor> else \<lceil>x\<rceil>)"

text \<open>\<^verbatim>\<open>v[key]\<close> with a string key, \<^verbatim>\<open>v[i]\<close> with an integer.\<close>

fun getitem_key :: "pyval \<Rightarrow> string \<Rightarrow> py_exn + pyval" where
  "getitem_key (PDict items) key =
     (case map_of items key of
        None \<Rightarrow> Inl (PyExn KeyError key)
      | Some v \<Rightarrow> Inr v)"
| "getitem_key (PList xs) key =
     Inl (PyExn TypeError ''list indices must be integers or slices, not str'')"
| "getitem_key (PStr s) key = Inl (PyExn TypeError ''string indices must be integers'')"
| "getitem_key v key = Inl (PyExn TypeError ''object is not subscriptable'')"

text \<open>
  The position that index \<open>i\<close> denotes in a sequence of \<open>len\<close> items: a negative
  index counts back from the end; \<open>None\<close> is out of range.
\<close>

definition py_index :: "nat \<Rightarrow> int \<Rightarrow> nat option" where
  "py_index len i =
     (if 0 \<le> i then (if i < int len then Some (nat i) else None)
      else (if - int len \<le> i then Some (nat (int len + i)) else None))"

fun getitem_index :: "pyval \<Rightarrow> int \<Rightarrow> py_exn + pyval" where
  "getitem_index (PList xs) i =
     (case py_index (length xs) i of
        None \<Rightarrow> Inl (PyExn IndexError ''list index out of range'')
      | Some j \<Rightarrow> Inr (xs ! j))"
| "getitem_index (PStr s) i =
     (case py_index (length s) i of
        None \<Rightarrow> Inl (PyExn IndexError ''string index out of range'')
      | Some j \<Rightarrow> Inr (PStr [s ! j]))"
| "getitem_index (PDict items) i = Inl (PyExn KeyError (str_int i))"
| "getitem_index v i = Inl (PyExn TypeError ''object is not subscriptable'')"

text \<open>
  The collaborators of \<^verbatim>\<open>transcribe_audio\<close>: the clock, the Transcribe client and
  \<^verbatim>\<open>requests\<close>. \<^verbatim>\<open>get_transcription_job\<close> answers the query number \<open>k\<close> (from 0) for
  a job name; \<^verbatim>\<open>requests.get(url)\<close> raises or gives a response, whose \<^verbatim>\<open>.json()\<close>
  raises or gives the parsed body.
\<close>

record world =
  time_time :: real
  start_transcription_job :: "string \<Rightarrow> string \<Rightarrow> string \<Rightarrow> string \<Rightarrow> py_exn option"
  get_transcription_job :: "string \<Rightarrow> nat \<Rightarrow> py_exn + pyval"
  requests_get :: "pyval \<Rightarrow> py_exn + (py_exn + pyval)"

text \<open>\<^verbatim>\<open>f"transcription_job_{int(time.time())}"\<close>\<close>

definition job_name :: "real \<Rightarrow> string" where
  "job_name now = ''transcription_job_'' @ str_int (py_int now)"

text \<open>\<^verbatim>\<open>status["TranscriptionJob"]["TranscriptionJobStatus"]\<close>\<close>

definition job_status :: "pyval \<Rightarrow> py_exn + pyval" where
  "job_status status =
     then_do (getitem_key status ''TranscriptionJob'')
       (\<lambda>job. getitem_key job ''TranscriptionJobStatus'')"

text \<open>\<^verbatim>\<open>status["TranscriptionJob"]["Transcript"]["TranscriptFileUri"]\<close>\<close>

definition transcript_file_uri :: "pyval \<Rightarrow> py_exn + pyval" where
  "transcript_file_uri status =
     then_do (getitem_key status ''TranscriptionJob'')
       (\<lambda>job. then_do (getitem_key job ''Transcript'')
          (\<lambda>t. getitem_key t ''TranscriptFileUri''))"

text \<open>\<^verbatim>\<open>doc["results"]["transcripts"][0]["transcript"]\<close>\<close>

definition transcript_field :: "pyval \<Rightarrow> py_exn + pyval" where
  "transcript_field doc =
     then_do (getitem_key doc ''results'')
       (\<lambda>r. then_do (getitem_key r ''transcripts'')
          (\<lambda>ts. then_do (getitem_index ts 0)
             (\<lambda>t. getitem_key t ''transcript'')))"

text \<open>\<^verbatim>\<open>s in ["COMPLETED", "FAILED"]\<close>\<close>

definition terminal :: "pyval \<Rightarrow> bool" where
  "terminal s = (s = PStr ''COMPLETED'' \<or> s = PStr ''FAILED'')"

text \<open>
  The \<^verbatim>\<open>while True\<close> loop. It has no bound in the source, so the model takes fuel:
  \<open>None\<close> is a loop that is still polling when the fuel is spent. \<open>k\<close> counts the
  queries made so far. The loop leaves with the last response in \<^verbatim>\<open>status\<close>.
\<close>

fun poll :: "nat \<Rightarrow> (nat \<Rightarrow> py_exn + pyval) \<Rightarrow> string \<Rightarrow> nat \<Rightarrow> pyval outcome option" where
  "poll 0 get name k = None"
| "poll (Suc fuel) get name k =
     (case get k of
        Inl e \<Rightarrow> Some ([GetTranscriptionJob name], Inl e)
      | Inr status \<Rightarrow>
          (case job_status status of
             Inl e \<Rightarrow> Some ([GetTranscriptionJob name], Inl e)
           | Inr s \<Rightarrow>
               if terminal s then Some ([GetTranscriptionJob name], Inr status)
               else (case poll fuel get name (Suc k) of
                       None \<Rightarrow> None
                     | Some (es, r) \<Rightarrow>
                         Some (GetTranscriptionJob name # TimeSleep 5 # es, r))))"

text \<open>The \<^verbatim>\<open>COMPLETED\<close> branch after the loop.\<close>

definition fetch_transcript :: "world \<Rightarrow> pyval \<Rightarrow> pyval outcome" where
  "fetch_transcript w status =
     (case transcript_file_uri status of
        Inl e \<Rightarrow> ([], Inl e)
      | Inr transcript_url \<Rightarrow>
          (case requests_get w transcript_url of
             Inl e \<Rightarrow> ([RequestsGet transcript_url], Inl e)
           | Inr (Inl e) \<Rightarrow> ([RequestsGet transcript_url, ResponseJson], Inl e)
           | Inr (Inr doc) \<Rightarrow> ([RequestsGet transcript_url, ResponseJson], transcript_field doc)))"

definition after_poll :: "world \<Rightarrow> pyval \<Rightarrow> pyval outcome" where
  "after_poll w status =
     (if job_status status = Inr (PStr ''COMPLETED'') then fetch_transcript w status
      else ([], Inl (PyExn Exception ''Transcription job failed.'')))"

text \<open>\<^verbatim>\<open>AWSTranscribeHelper.transcribe_audio\<close>\<close>

definition transcribe_audio :: "world \<Rightarrow> nat \<Rightarrow> string \<Rightarrow> pyval outcome option" where
  "transcribe_audio w fuel audio_file_url =
     (let name = job_name (time_time w);
          submit = [TimeTime, StartTranscriptionJob name audio_file_url ''mp3'' ''en-US'']
      in map_option (log_and_reraise ''Error transcribing audio with AWS Transcribe: '')
           (case start_transcription_job w name audio_file_url ''mp3'' ''en-US'' of
              Some e \<Rightarrow> Some (submit, Inl e)
            | None \<Rightarrow>
                (case poll fuel (get_transcription_job w name) name 0 of
                   None \<Rightarrow> None
                 | Some (es, Inl e) \<Rightarrow> Some (submit @ es, Inl e)
                 | Some (es, Inr status) \<Rightarrow>
                     (case after_poll w status of
                        (es', r) \<Rightarrow> Some (submit @ es @ es', r)))))"

text \<open>Helpers for the statements.\<close>

text \<open>The status seen by query \<open>k\<close> of an invocation.\<close>

definition observed_status :: "world \<Rightarrow> nat \<Rightarrow> py_exn + pyval" where
  "observed_status w k =
     then_do (get_transcription_job w (job_name (time_time w)) k) job_status"

text \<open>A query that answered with a status that is neither COMPLETED nor FAILED.\<close>

definition pending :: "py_exn + pyval \<Rightarrow> bool" where
  "pending r = (case r of Inl e \<Rightarrow> False | Inr s \<Rightarrow> \<not> terminal s)"

text \<open>\<open>n\<close> rounds of the loop that did not leave it: a query, then the sleep.\<close>

definition waiting_rounds :: "string \<Rightarrow> nat \<Rightarrow> effect list" where
  "waiting_rounds name n = concat (replicate n [GetTranscriptionJob name, TimeSleep 5])"

text \<open>What the loop leaves with when its last query is answered by \<open>r\<close>.\<close>

definition leave :: "py_exn + pyval \<Rightarrow> py_exn + pyval" where
  "leave r = then_do r (\<lambda>status. then_do (job_status status) (\<lambda>s. Inr status))"

fun is_fetch :: "effect \<Rightarrow> bool" where
  "is_fetch (RequestsGet url) = True"
| "is_fetch _ = False"

text \<open>A step of the polling loop: a status query or a sleep.\<close>

fun is_poll_step :: "effect \<Rightarrow> bool" where
  "is_poll_step (GetTranscriptionJob name) = True"
| "is_poll_step (TimeSleep seconds) = True"
| "is_poll_step _ = False"

text \<open>Concrete responses and worlds for the examples.\<close>

definition job_response :: "string \<Rightarrow> pyval" where
  "job_response s =
     PDict [(''TranscriptionJob'',
       PDict [(''TranscriptionJobStatus'', PStr s),
              (''Transcript'', PDict [(''TranscriptFileUri'', PStr ''https://s3/t.json'')])])]"

definition transcript_document :: pyval where
  "transcript_document =
     PDict [(''jobName'', PStr ''transcription_job_1700000000''),
            (''results'', PDict [(''transcripts'',
               PList [PDict [(''transcript'', PStr ''hello world'')],
                      PDict [(''transcript'', PStr ''goodbye'')]])])]"

text \<open>
  A job that is IN_PROGRESS for two queries and then ends in the given status. The
  result document is served at the address that the job response names, and nowhere else.
\<close>

definition example_world :: "real \<Rightarrow> string \<Rightarrow> world" where
  "example_world now final =
     \<lparr>time_time = now,
      start_transcription_job = (\<lambda>name uri format language. None),
      get_transcription_job =
        (\<lambda>name k. Inr (job_response (if k < 2 then ''IN_PROGRESS'' else final))),
      requests_get =
        (\<lambda>url. if url = PStr ''https://s3/t.json'' then Inr (Inr transcript_document)
               else Inl (PyExn ProviderError ''not found''))\<rparr>"

text \<open>The same job, with a result document that cannot be fetched.\<close>

definition unreachable_world :: "real \<Rightarrow> world" where
  "unreachable_world now =
     \<lparr>time_time = now,
      start_transcription_job = (\<lambda>name uri format language. None),
      get_transcription_job =
        (\<lambda>name k. Inr (job_response (if k < 2 then ''IN_PROGRESS'' else ''COMPLETED''))),
      requests_get = (\<lambda>url. Inl (PyExn ProviderError ''connection refused''))\<rparr>"

section \<open>The accumulator\<close>

lemma handle_results_transcription:
  "transcription (snd (handle_results h rs)) =
     transcription h @ concat (map result_text (filter (\<lambda>r. is_partial r = Some False) rs))"
proof (induction rs arbitrary: h)
  case Nil
  show ?case by simp
next
  case (Cons r rs)
  show ?case
    using Cons.IH [of "snd (handle_result h r)"]
    by (simp add: handle_result_def result_text_def Let_def split_def)
qed

lemma snd_handle_events_Inr:
  "snd (handle_events h (Inr ev # rest)) =
     snd (handle_events (snd (handle_transcript_event h ev)) rest)"
  by (simp add: split_def Let_def)

lemma handle_events_all_events:
  "\<exists>h'. snd (handle_events h (map Inr evs)) = Inr h' \<and>
     transcription h' = transcription h @ concat (map result_text (final_results evs))"
proof (induction evs arbitrary: h)
  case Nil
  show ?case by (simp add: final_results_def)
next
  case (Cons ev evs)
  obtain h2 where h2:
    "snd (handle_events (snd (handle_transcript_event h ev)) (map Inr evs)) = Inr h2"
    "transcription h2 = transcription (snd (handle_transcript_event h ev))
        @ concat (map result_text (final_results evs))"
    using Cons.IH by blast
  have "transcription (snd (handle_transcript_event h ev)) =
      transcription h @ concat (map result_text
        (filter (\<lambda>r. is_partial r = Some False) (results (transcript ev))))"
    by (simp add: handle_transcript_event_def handle_results_transcription)
  with h2 show ?case
    by (simp add: snd_handle_events_Inr final_results_def del: handle_events.simps)
qed

text \<open>
  What the handler computes: for every finite sequence of events the final transcript is
  the concatenation, in arrival order and with nothing between them, of the texts of the
  results whose \<open>is_partial\<close> is \<open>False\<close>; the text of a result is all of its
  alternatives joined by single spaces. Partial results contribute nothing.
\<close>

lemma final_transcription_concat:
  "final_transcription evs = concat (map result_text (final_results evs))"
proof -
  obtain h' where "snd (handle_events handler_init (map Inr evs)) = Inr h'"
    and "transcription h' = transcription handler_init @ concat (map result_text (final_results evs))"
    using handle_events_all_events by blast
  then show ?thesis
    by (simp add: final_transcription_def handler_init_def)
qed

text \<open>
  C1 (the code at the failing inputs): on the events partial "hel", final "hello", final
  "world" the handler gives "helloworld", where the space-joined transcript is
  "hello world"; and on one final result with the alternatives "hello world" and
  "hello word" it gives "hello world hello word", where the best alternative alone is
  "hello world".
\<close>

theorem final_transcription_runs_results_together:
  "final_transcription [mk_event True ''hel'', mk_event False ''hello'', mk_event False ''world'']
     = ''helloworld'' \<and>
   final_transcription [mk_event True ''hel'', mk_event False ''hello'', mk_event False ''world'']
     \<noteq> ''hello world'' \<and>
   final_transcription [mk_event_alternatives [''hello world'', ''hello word'']]
     = ''hello world hello word'' \<and>
   final_transcription [mk_event_alternatives [''hello world'', ''hello word'']]
     \<noteq> ''hello world''"
  by (simp add: final_transcription_def handler_init_def mk_event_def mk_event_alternatives_def
      handle_transcript_event_def handle_result_def Let_def)

section \<open>The streaming transcriber\<close>

lemma handle_events_fault:
  "first_fault s = Some e \<Longrightarrow> snd (handle_events h s) = Inl e"
  by (induction s arbitrary: h rule: first_fault.induct) (simp_all add: split_def Let_def)

lemma handle_events_no_fault:
  "first_fault s = None \<Longrightarrow> map Inr (events_of s) = s"
  by (induction s rule: first_fault.induct) simp_all

lemma handle_results_only_logs:
  "filter is_stream_start (fst (handle_results h rs)) = []"
  by (induction rs arbitrary: h) (simp_all add: split_def Let_def handle_result_def)

lemma handle_events_only_logs:
  "filter is_stream_start (fst (handle_events h s)) = []"
proof (induction s arbitrary: h)
  case Nil
  show ?case by simp
next
  case (Cons a s)
  show ?case
    by (cases a)
      (simp_all add: split_def Let_def handle_transcript_event_def handle_results_only_logs
        Cons.IH)
qed

lemma handle_events_final_transcription:
  assumes "first_fault s = None"
  shows "\<exists>h'. snd (handle_events handler_init s) = Inr h' \<and>
           transcription h' = final_transcription (events_of s)"
proof -
  obtain h' where h': "snd (handle_events handler_init (map Inr (events_of s))) = Inr h'"
    using handle_events_all_events by blast
  then have "transcription h' = final_transcription (events_of s)"
    by (simp add: final_transcription_def)
  with h' assms show ?thesis
    by (simp add: handle_events_no_fault)
qed

lemma log_and_reraise_snd: "snd (log_and_reraise msg r) = snd r"
  by (simp add: log_and_reraise_def split: sum.splits)

lemma log_and_reraise_fst:
  "fst (log_and_reraise msg r) =
     fst r @ (case snd r of
                Inr v \<Rightarrow> []
              | Inl e \<Rightarrow> if isinstance_Exception e then [Log ERROR msg (ArgExn e)] else [])"
  by (simp add: log_and_reraise_def split: sum.splits)

text \<open>
  C5: the streaming transcriber is all or nothing. When the provider raises on opening
  the session, or the result stream raises at any event, that exception is the whole
  result and the text accumulated so far is not returned; otherwise the result is the
  final transcript of all the events. In every case the session is opened exactly once:
  there is no retry.
\<close>

theorem transcribe_audio_stream_all_or_nothing:
  "snd (transcribe_audio_stream start_stream_transcription audio) =
     (case start_stream_transcription
             \<lparr>language_code = ''en-US'', media_sample_rate_hz = 8000,
              media_encoding = ''pcm'', audio_stream = audio\<rparr> of
        Inl e \<Rightarrow> Inl e
      | Inr s \<Rightarrow>
          (case first_fault s of
             Some e \<Rightarrow> Inl e
           | None \<Rightarrow> Inr (final_transcription (events_of s)))) \<and>
   length (filter is_stream_start
     (fst (transcribe_audio_stream start_stream_transcription audio))) = 1"
proof -
  let ?req = "\<lparr>language_code = ''en-US'', media_sample_rate_hz = 8000,
              media_encoding = ''pcm'', audio_stream = audio\<rparr>"
  show ?thesis
  proof (cases "start_stream_transcription ?req")
    case (Inl e)
    then show ?thesis
      by (simp add: transcribe_audio_stream_def log_and_reraise_snd log_and_reraise_fst)
  next
    case (Inr s)
    obtain es r where hr: "handle_events handler_init s = (es, r)"
      by (cases "handle_events handler_init s") blast
    have logs: "filter is_stream_start es = []"
      using handle_events_only_logs [of handler_init s] hr by simp
    have res: "(case r of Inl e \<Rightarrow> Inl e | Inr h \<Rightarrow> Inr (transcription h)) =
        (case first_fault s of
           Some e \<Rightarrow> Inl e
         | None \<Rightarrow> Inr (final_transcription (events_of s)))"
    proof (cases "first_fault s")
      case None
      then show ?thesis
        using handle_events_final_transcription [of s] hr by auto
    next
      case (Some e)
      then show ?thesis
        using handle_events_fault [of s e handler_init] hr by simp
    qed
    show ?thesis
      using Inr hr logs res
      by (cases r)
        (auto simp: transcribe_audio_stream_def log_and_reraise_snd log_and_reraise_fst
          split: option.splits)
  qed
qed

text \<open>
  C9: a handler starts with the empty transcript, and when the event source ends after
  zero events the transcript returned by \<^verbatim>\<open>transcribe_audio_stream\<close> is the empty string.
\<close>

theorem zero_events_empty_transcript:
  "transcription handler_init = [] \<and>
   final_transcription [] = [] \<and>
   snd (transcribe_audio_stream (\<lambda>request. Inr []) audio) = Inr []"
  by (simp add: handler_init_def final_transcription_def transcribe_audio_stream_def
      log_and_reraise_def)

section \<open>The synthesizer\<close>

lemma read_audio_stream_no_call:
  "filter is_synthesis_call (fst (read_audio_stream response)) = []"
  by (simp add: read_audio_stream_def split: option.splits sum.splits)

lemma read_audio_stream_snd:
  "snd (read_audio_stream response) =
     (case AudioStream response of
        None \<Rightarrow> Inl (PyExn KeyError ''AudioStream'')
      | Some r \<Rightarrow> r)"
  by (simp add: read_audio_stream_def split: option.splits sum.splits)

lemma synthesize_speech_with_result:
  "snd (synthesize_speech_with polly text voice_id output_format) =
     synthesis_result polly text voice_id output_format"
  using read_audio_stream_snd [of "projr (polly text voice_id output_format)"]
  by (cases "polly text voice_id output_format")
    (auto simp: synthesize_speech_with_def synthesis_result_def log_and_reraise_snd
      split: prod.splits sum.splits)

lemma synthesize_speech_with_one_call:
  "length (filter is_synthesis_call
     (fst (synthesize_speech_with polly text voice_id output_format))) = 1"
  using read_audio_stream_no_call [of "projr (polly text voice_id output_format)"]
  by (cases "polly text voice_id output_format")
    (auto simp: synthesize_speech_with_def log_and_reraise_fst
      split: prod.splits sum.splits)

lemma synthesize_result:
  "snd (synthesize polly text) = synthesis_result polly text ''Joanna'' ''mp3''"
  using read_audio_stream_snd [of "projr (polly text ''Joanna'' ''mp3'')"]
  by (cases "polly text ''Joanna'' ''mp3''")
    (auto simp: synthesize_def synthesis_result_def log_and_reraise_snd
      split: prod.splits sum.splits)

lemma synthesize_one_call:
  "length (filter is_synthesis_call (fst (synthesize polly text))) = 1"
  using read_audio_stream_no_call [of "projr (polly text ''Joanna'' ''mp3'')"]
  by (cases "polly text ''Joanna'' ''mp3''")
    (auto simp: synthesize_def log_and_reraise_fst split: prod.splits sum.splits)

text \<open>
  C8: each of the two synthesis functions calls the provider exactly once per invocation.
  It returns all the bytes read from the audio stream of the response; when the provider
  call, the lookup of the stream or the read raises, that exception is the result, with
  no second call.
\<close>

theorem synthesize_one_call_no_retry:
  "snd (synthesize_speech polly text) = synthesis_result polly text ''Joanna'' ''mp3'' \<and>
   length (filter is_synthesis_call (fst (synthesize_speech polly text))) = 1 \<and>
   snd (synthesize polly text) = synthesis_result polly text ''Joanna'' ''mp3'' \<and>
   length (filter is_synthesis_call (fst (synthesize polly text))) = 1"
  by (simp add: synthesize_speech_def synthesize_speech_with_result
      synthesize_speech_with_one_call synthesize_result synthesize_one_call)

section \<open>The orchestrator and the endpoints\<close>

lemma log_and_swallow_Exception:
  assumes "\<And>e. snd r = Inl e \<Longrightarrow> isinstance_Exception e"
  shows "snd (log_and_swallow msg r) = Inr ()"
  using assms by (cases "snd r") (simp_all add: log_and_swallow_def)

lemma construct_and_start_raises:
  assumes "snd (construct_and_start tel args) = Inl e"
  shows "outbound_call_init tel args = Some e \<or> outbound_call_start tel args = Some e"
  using assms by (simp add: construct_and_start_def split: option.splits)

lemma construct_and_start_Exception:
  assumes "raises_only_Exception tel" and "snd (construct_and_start tel args) = Inl e"
  shows "isinstance_Exception e"
  using assms(1) construct_and_start_raises [OF assms(2)]
  unfolding raises_only_Exception_def by blast

lemma start_outbound_call_returns:
  assumes "raises_only_Exception tel"
  shows "snd (start_outbound_call tel cfg to_phone) = Inr ()"
proof (cases to_phone)
  case None
  then show ?thesis by (simp add: start_outbound_call_def)
next
  case (Some p)
  show ?thesis
  proof (cases "p = []")
    case True
    with Some show ?thesis by (simp add: start_outbound_call_def)
  next
    case False
    with Some show ?thesis
      by (simp add: start_outbound_call_def
          log_and_swallow_Exception construct_and_start_Exception [OF assms])
  qed
qed

lemma start_outbound_call_aws_returns:
  assumes "raises_only_Exception tel"
  shows "snd (start_outbound_call_aws tel cfg to_phone) = Inr ()"
proof (cases to_phone)
  case None
  then show ?thesis by (simp add: start_outbound_call_aws_def)
next
  case (Some p)
  show ?thesis
  proof (cases "p = []")
    case True
    with Some show ?thesis by (simp add: start_outbound_call_aws_def)
  next
    case False
    with Some show ?thesis
      by (simp add: start_outbound_call_aws_def
          log_and_swallow_Exception construct_and_start_Exception [OF assms])
  qed
qed

text \<open>
  C6 (as the code has it): for every destination, absent and empty included, and every
  telephony library that raises only instances of \<^verbatim>\<open>Exception\<close> from the construction
  of the call or from \<^verbatim>\<open>start()\<close>, \<^verbatim>\<open>start_outbound_call\<close> returns \<^verbatim>\<open>None\<close> with no
  exception escaping, and \<^verbatim>\<open>POST /start_outbound_call\<close> answers
  \<^verbatim>\<open>{"status": "success"}\<close>; in main.py and in main_aws.py alike.
\<close>

theorem start_outbound_call_swallows_Exception:
  assumes "raises_only_Exception tel"
  shows "snd (start_outbound_call tel cfg to_phone) = Inr () \<and>
         snd (api_start_outbound_call tel cfg to_phone) = Inr (PDict [(''status'', PStr ''success'')]) \<and>
         snd (start_outbound_call_aws tel cfg to_phone) = Inr () \<and>
         snd (api_start_outbound_call_aws tel cfg to_phone) =
           Inr (PDict [(''status'', PStr ''success'')])"
  using start_outbound_call_returns [OF assms, of cfg to_phone]
    start_outbound_call_aws_returns [OF assms, of cfg to_phone]
  by (simp add: api_start_outbound_call_def api_start_outbound_call_aws_def split_def
      split: sum.splits)

theorem start_outbound_call_swallows_Exception_witness:
  "raises_only_Exception faulty_telephony \<and>
   snd (start_outbound_call faulty_telephony example_config (Some ''+15551234567'')) = Inr () \<and>
   snd (api_start_outbound_call faulty_telephony example_config (Some ''+15551234567'')) =
     Inr (PDict [(''status'', PStr ''success'')]) \<and>
   snd (start_outbound_call_aws faulty_telephony example_config (Some ''+15551234567'')) = Inr () \<and>
   snd (api_start_outbound_call_aws faulty_telephony example_config (Some ''+15551234567'')) =
     Inr (PDict [(''status'', PStr ''success'')])"
proof -
  have h: "raises_only_Exception faulty_telephony"
    by (simp add: raises_only_Exception_def faulty_telephony_def isinstance_Exception_def)
  show ?thesis
    using h start_outbound_call_swallows_Exception
      [OF h, of example_config "Some ''+15551234567''"]
    by simp
qed

text \<open>
  C6 (as the specification states it) fails for an exception outside the
  \<^verbatim>\<open>Exception\<close> hierarchy: when \<^verbatim>\<open>start()\<close> raises \<^verbatim>\<open>SystemExit\<close>, the
  \<^verbatim>\<open>except Exception\<close> clause does not catch it, it escapes \<^verbatim>\<open>start_outbound_call\<close>
  and the endpoint gives no response.
\<close>

theorem start_outbound_call_SystemExit_counterexample:
  "snd (start_outbound_call exiting_telephony example_config (Some ''+15551234567'')) =
     Inl (PyExn SystemExit ''1'') \<and>
   snd (api_start_outbound_call exiting_telephony example_config (Some ''+15551234567'')) =
     Inl (PyExn SystemExit ''1'')"
  by (simp add: start_outbound_call_def api_start_outbound_call_def log_and_swallow_def
      construct_and_start_def exiting_telephony_def example_config_def
      isinstance_Exception_def)

text \<open>
  C7: \<^verbatim>\<open>start_outbound_call(None)\<close> and \<^verbatim>\<open>start_outbound_call("")\<close> do nothing: the
  trace is empty (no \<^verbatim>\<open>OutboundCall\<close> is constructed, none is started, nothing is
  logged) and the function returns normally; in main.py and in main_aws.py alike.
\<close>

theorem start_outbound_call_no_destination:
  "start_outbound_call tel cfg None = ([], Inr ()) \<and>
   start_outbound_call tel cfg (Some []) = ([], Inr ()) \<and>
   start_outbound_call_aws tel cfg None = ([], Inr ()) \<and>
   start_outbound_call_aws tel cfg (Some []) = ([], Inr ())"
  by (simp add: start_outbound_call_def start_outbound_call_aws_def)

text \<open>
  C10 (as the code has it): the handler function \<^verbatim>\<open>inbound_call\<close> returns a response
  and raises nothing for every request whose \<^verbatim>\<open>await request.json()\<close> returns or raises
  an instance of \<^verbatim>\<open>Exception\<close>: \<^verbatim>\<open>{"status": "call received"}\<close> when it returns,
  \<^verbatim>\<open>{"status": "error"}\<close> when it raises.
\<close>

theorem inbound_call_handler_total:
  assumes "\<forall>e. json request = Inl e \<longrightarrow> isinstance_Exception e"
  shows "snd (inbound_call request) =
     Inr (PDict [(''status'',
       PStr (case json request of
               Inr payload \<Rightarrow> ''call received''
             | Inl e \<Rightarrow> ''error''))])"
  using assms by (cases "json request") (simp_all add: inbound_call_def)

theorem inbound_call_handler_total_witness:
  "snd (inbound_call (json_request (PDict [(''CallSid'', PStr ''CA1'')]))) =
     Inr (PDict [(''status'', PStr ''call received'')]) \<and>
   snd (inbound_call undecodable_request) = Inr (PDict [(''status'', PStr ''error'')])"
proof -
  have h1: "\<forall>e. json (json_request (PDict [(''CallSid'', PStr ''CA1'')])) = Inl e
      \<longrightarrow> isinstance_Exception e"
    by (simp add: json_request_def)
  have h2: "\<forall>e. json undecodable_request = Inl e \<longrightarrow> isinstance_Exception e"
    by (simp add: undecodable_request_def isinstance_Exception_def)
  show ?thesis
    using inbound_call_handler_total [OF h1] inbound_call_handler_total [OF h2]
    by (simp add: json_request_def undecodable_request_def)
qed

text \<open>
  C10 (as the specification states it) fails twice. \<^verbatim>\<open>POST /inbound_call\<close> is served
  by the route of the telephony router, registered first, so a body that parses as JSON
  is answered by that route (here with HTTP 422), not with
  \<^verbatim>\<open>{"status": "call received"}\<close>. And when the await of \<^verbatim>\<open>request.json()\<close> raises
  \<^verbatim>\<open>CancelledError\<close>, the handler's \<^verbatim>\<open>except Exception\<close> does not catch it and it
  propagates.
\<close>

theorem inbound_call_endpoint_counterexample:
  "dispatch app_routes POST ''/inbound_call'' = Some TelephonyInbound \<and>
   snd (post_inbound_call form_validating_route (json_request (PDict []))) =
     Inr (PDict [(''detail'', PStr ''Unprocessable Entity'')]) \<and>
   snd (post_inbound_call form_validating_route (json_request (PDict []))) \<noteq>
     Inr (PDict [(''status'', PStr ''call received'')]) \<and>
   snd (inbound_call cancelled_request) = Inl (PyExn CancelledError [])"
  by (simp add: post_inbound_call_def app_routes_def telephony_router_def
      form_validating_route_def inbound_call_def cancelled_request_def
      isinstance_Exception_def)

section \<open>The batch transcriber\<close>

lemma waiting_rounds_Suc:
  "waiting_rounds name (Suc n) =
     GetTranscriptionJob name # TimeSleep 5 # waiting_rounds name n"
  by (simp add: waiting_rounds_def)

lemma waiting_rounds_0: "waiting_rounds name 0 = []"
  by (simp add: waiting_rounds_def)

lemma poll_not_pending:
  assumes "\<not> pending (then_do (get k) job_status)"
  shows "poll (Suc fuel) get name k = Some ([GetTranscriptionJob name], leave (get k))"
  using assms
  by (auto simp: pending_def then_do_def leave_def split: sum.splits)

lemma poll_pending:
  assumes "pending (then_do (get k) job_status)"
  shows "poll (Suc fuel) get name k =
     (case poll fuel get name (Suc k) of
        None \<Rightarrow> None
      | Some (es, r) \<Rightarrow> Some (GetTranscriptionJob name # TimeSleep 5 # es, r))"
  using assms
  by (auto simp: pending_def then_do_def split: sum.splits)

lemma poll_enough_fuel:
  assumes "\<forall>j<n. pending (then_do (get (k + j)) job_status)"
    and "\<not> pending (then_do (get (k + n)) job_status)"
    and "n < fuel"
  shows "poll fuel get name k =
     Some (waiting_rounds name n @ [GetTranscriptionJob name], leave (get (k + n)))"
  using assms
proof (induction n arbitrary: k fuel)
  case 0
  then obtain f where "fuel = Suc f" by (cases fuel) auto
  with 0 show ?case
    by (simp add: poll_not_pending waiting_rounds_0 del: poll.simps)
next
  case (Suc n)
  from Suc.prems(3) obtain f where f: "fuel = Suc f" "n < f" by (cases fuel) auto
  have p0: "pending (then_do (get k) job_status)"
    using Suc.prems(1) by (metis add_0_right zero_less_Suc)
  have rest: "\<forall>j<n. pending (then_do (get (Suc k + j)) job_status)"
    using Suc.prems(1) by (metis Suc_less_eq add_Suc_shift)
  have last: "\<not> pending (then_do (get (Suc k + n)) job_status)"
    using Suc.prems(2) by simp
  have "poll f get name (Suc k) =
      Some (waiting_rounds name n @ [GetTranscriptionJob name], leave (get (Suc k + n)))"
    by (rule Suc.IH [OF rest last f(2)])
  with p0 f show ?case
    by (simp add: poll_pending waiting_rounds_Suc del: poll.simps)
qed

lemma poll_sound:
  assumes "poll fuel get name k = Some (es, r)"
  shows "\<exists>n<fuel. (\<forall>j<n. pending (then_do (get (k + j)) job_status)) \<and>
           \<not> pending (then_do (get (k + n)) job_status) \<and>
           es = waiting_rounds name n @ [GetTranscriptionJob name] \<and>
           r = leave (get (k + n))"
  using assms
proof (induction fuel arbitrary: k es r)
  case 0
  then show ?case by simp
next
  case (Suc fuel)
  show ?case
  proof (cases "pending (then_do (get k) job_status)")
    case False
    with Suc.prems have "es = [GetTranscriptionJob name]" "r = leave (get k)"
      by (simp_all add: poll_not_pending del: poll.simps)
    with False show ?thesis
      by (intro exI [of _ 0]) (simp add: waiting_rounds_0)
  next
    case True
    with Suc.prems obtain es' where
      inner: "poll fuel get name (Suc k) = Some (es', r)" and
      es: "es = GetTranscriptionJob name # TimeSleep 5 # es'"
      by (auto simp: poll_pending simp del: poll.simps split: option.splits)
    from Suc.IH [OF inner] obtain n where n:
      "n < fuel" "\<forall>j<n. pending (then_do (get (Suc k + j)) job_status)"
      "\<not> pending (then_do (get (Suc k + n)) job_status)"
      "es' = waiting_rounds name n @ [GetTranscriptionJob name]"
      "r = leave (get (Suc k + n))"
      by blast
    have all: "\<forall>j<Suc n. pending (then_do (get (k + j)) job_status)"
    proof (intro allI impI)
      fix j assume "j < Suc n"
      show "pending (then_do (get (k + j)) job_status)"
      proof (cases j)
        case 0
        with True show ?thesis by simp
      next
        case (Suc i)
        with \<open>j < Suc n\<close> n(2) show ?thesis by simp
      qed
    qed
    from n es all show ?thesis
      by (intro exI [of _ "Suc n"]) (simp add: waiting_rounds_Suc)
  qed
qed


lemma log_and_reraise_Inr_iff:
  "log_and_reraise msg x = (es, Inr t) \<longleftrightarrow> x = (es, Inr t)"
  by (cases x; cases "snd x") (auto simp: log_and_reraise_def)

lemma leave_Inr:
  assumes "leave r = Inr status"
  shows "r = Inr status \<and> (\<exists>s. job_status status = Inr s)"
  using assms by (auto simp: leave_def then_do_def split: sum.splits)

lemma after_poll_Inr:
  assumes "after_poll w status = (es, Inr t)"
  shows "job_status status = Inr (PStr ''COMPLETED'') \<and>
         (\<exists>u doc. transcript_file_uri status = Inr u \<and> requests_get w u = Inr (Inr doc) \<and>
            transcript_field doc = Inr t \<and> es = [RequestsGet u, ResponseJson])"
  using assms
  by (auto simp: after_poll_def fetch_transcript_def split: if_splits sum.splits)

lemma transcribe_audio_sound:
  assumes "transcribe_audio w fuel url = Some (es, Inr t)"
  shows "\<exists>n status u doc. n < fuel \<and>
           (\<forall>j<n. pending (observed_status w j)) \<and>
           get_transcription_job w (job_name (time_time w)) n = Inr status \<and>
           job_status status = Inr (PStr ''COMPLETED'') \<and>
           transcript_file_uri status = Inr u \<and>
           requests_get w u = Inr (Inr doc) \<and>
           transcript_field doc = Inr t \<and>
           es = [TimeTime, StartTranscriptionJob (job_name (time_time w)) url ''mp3'' ''en-US'']
                @ waiting_rounds (job_name (time_time w)) n
                @ [GetTranscriptionJob (job_name (time_time w)), RequestsGet u, ResponseJson]"
proof -
  let ?name = "job_name (time_time w)"
  let ?submit = "[TimeTime, StartTranscriptionJob ?name url ''mp3'' ''en-US'']"
  from assms obtain x where
    body: "(case start_transcription_job w ?name url ''mp3'' ''en-US'' of
              Some e \<Rightarrow> Some (?submit, Inl e)
            | None \<Rightarrow>
                (case poll fuel (get_transcription_job w ?name) ?name 0 of
                   None \<Rightarrow> None
                 | Some (es, Inl e) \<Rightarrow> Some (?submit @ es, Inl e)
                 | Some (es, Inr status) \<Rightarrow>
                     (case after_poll w status of
                        (es', r) \<Rightarrow> Some (?submit @ es @ es', r)))) = Some x"
    and x: "log_and_reraise ''Error transcribing audio with AWS Transcribe: '' x = (es, Inr t)"
    unfolding transcribe_audio_def Let_def by auto
  from x have x': "x = (es, Inr t)"
    by (simp add: log_and_reraise_Inr_iff)
  from body x' obtain es1 status es2 where
    p: "poll fuel (get_transcription_job w ?name) ?name 0 = Some (es1, Inr status)" and
    a: "after_poll w status = (es2, Inr t)" and
    es: "es = ?submit @ es1 @ es2"
    by (auto split: option.splits sum.splits prod.splits)
  from poll_sound [OF p] obtain n where n:
    "n < fuel" "\<forall>j<n. pending (then_do (get_transcription_job w ?name (0 + j)) job_status)"
    "es1 = waiting_rounds ?name n @ [GetTranscriptionJob ?name]"
    "Inr status = leave (get_transcription_job w ?name (0 + n))"
    by blast
  from n(4) have g: "get_transcription_job w ?name n = Inr status"
    using leave_Inr [of "get_transcription_job w ?name n" status] by simp
  from n(2) have pend: "\<forall>j<n. pending (observed_status w j)"
    by (simp add: observed_status_def)
  from after_poll_Inr [OF a] obtain u doc where
    "job_status status = Inr (PStr ''COMPLETED'')" "transcript_file_uri status = Inr u"
    "requests_get w u = Inr (Inr doc)" "transcript_field doc = Inr t"
    "es2 = [RequestsGet u, ResponseJson]"
    by blast
  with n(1) pend g es n(3) show ?thesis
    by (intro exI [of _ n] exI [of _ status] exI [of _ u] exI [of _ doc]) simp
qed

lemma transcribe_audio_polls:
  assumes "start_transcription_job w (job_name (time_time w)) url ''mp3'' ''en-US'' = None"
    and "n < fuel"
    and "\<forall>j<n. pending (observed_status w j)"
    and "get_transcription_job w (job_name (time_time w)) n = Inr status"
    and "job_status status = Inr s" and "terminal s"
  shows "transcribe_audio w fuel url =
     Some (log_and_reraise ''Error transcribing audio with AWS Transcribe: ''
       ([TimeTime, StartTranscriptionJob (job_name (time_time w)) url ''mp3'' ''en-US'']
          @ (waiting_rounds (job_name (time_time w)) n
               @ [GetTranscriptionJob (job_name (time_time w))])
          @ fst (after_poll w status),
        snd (after_poll w status)))"
proof -
  let ?name = "job_name (time_time w)"
  have pend: "\<forall>j<n. pending (then_do (get_transcription_job w ?name (0 + j)) job_status)"
    using assms(3) by (simp add: observed_status_def)
  have last: "\<not> pending (then_do (get_transcription_job w ?name (0 + n)) job_status)"
    using assms(4-6) by (simp add: pending_def then_do_def)
  have "leave (get_transcription_job w ?name (0 + n)) = Inr status"
    using assms(4,5) by (simp add: leave_def then_do_def)
  with poll_enough_fuel [OF pend last assms(2), of ?name]
  have "poll fuel (get_transcription_job w ?name) ?name 0 =
      Some (waiting_rounds ?name n @ [GetTranscriptionJob ?name], Inr status)"
    by simp
  with assms(1) show ?thesis
    by (simp add: transcribe_audio_def Let_def split_def)
qed

lemma transcribe_audio_failed:
  assumes "start_transcription_job w (job_name (time_time w)) url ''mp3'' ''en-US'' = None"
    and "n < fuel"
    and "\<forall>j<n. pending (observed_status w j)"
    and "observed_status w n = Inr (PStr ''FAILED'')"
  shows "transcribe_audio w fuel url =
     Some ([TimeTime, StartTranscriptionJob (job_name (time_time w)) url ''mp3'' ''en-US'']
             @ waiting_rounds (job_name (time_time w)) n
             @ [GetTranscriptionJob (job_name (time_time w)),
                Log ERROR ''Error transcribing audio with AWS Transcribe: ''
                  (ArgExn (PyExn Exception ''Transcription job failed.''))],
           Inl (PyExn Exception ''Transcription job failed.''))"
proof -
  from assms(4) obtain status where
    g: "get_transcription_job w (job_name (time_time w)) n = Inr status" and
    s: "job_status status = Inr (PStr ''FAILED'')"
    by (auto simp: observed_status_def then_do_def split: sum.splits)
  have t: "terminal (PStr ''FAILED'')" by (simp add: terminal_def)
  have "after_poll w status = ([], Inl (PyExn Exception ''Transcription job failed.''))"
    using s by (simp add: after_poll_def)
  with transcribe_audio_polls [OF assms(1-3) g s t] show ?thesis
    by (simp add: log_and_reraise_def isinstance_Exception_def)
qed

lemma transcribe_audio_completed:
  assumes "start_transcription_job w (job_name (time_time w)) url ''mp3'' ''en-US'' = None"
    and "n < fuel"
    and "\<forall>j<n. pending (observed_status w j)"
    and "get_transcription_job w (job_name (time_time w)) n = Inr status"
    and "job_status status = Inr (PStr ''COMPLETED'')"
    and "transcript_file_uri status = Inr u"
    and "requests_get w u = Inr (Inr doc)"
    and "transcript_field doc = Inr t"
  shows "transcribe_audio w fuel url =
     Some ([TimeTime, StartTranscriptionJob (job_name (time_time w)) url ''mp3'' ''en-US'']
             @ waiting_rounds (job_name (time_time w)) n
             @ [GetTranscriptionJob (job_name (time_time w)), RequestsGet u, ResponseJson],
           Inr t)"
proof -
  have t: "terminal (PStr ''COMPLETED'')" by (simp add: terminal_def)
  have "after_poll w status = ([RequestsGet u, ResponseJson], Inr t)"
    using assms(5-8) by (simp add: after_poll_def fetch_transcript_def)
  with transcribe_audio_polls [OF assms(1-4) assms(5) t] show ?thesis
    by (simp add: log_and_reraise_def)
qed


lemma waiting_rounds_no_fetch: "filter is_fetch (waiting_rounds name n) = []"
  by (induction n) (simp_all add: waiting_rounds_0 waiting_rounds_Suc)

lemma example_job_name:
  "job_name (1700000000.25) = ''transcription_job_1700000000''"
  "job_name (1700000000.75) = ''transcription_job_1700000000''"
  by (simp_all add: job_name_def py_int_def str_int_def str_nat.simps digit_def)

lemma example_world_simps:
  "time_time (example_world now final) = now"
  "start_transcription_job (example_world now final) name uri format language = None"
  "get_transcription_job (example_world now final) name k =
     Inr (job_response (if k < 2 then ''IN_PROGRESS'' else final))"
  "requests_get (example_world now final) (PStr ''https://s3/t.json'') =
     Inr (Inr transcript_document)"
  by (simp_all add: example_world_def)

lemma job_response_simps:
  "job_status (job_response s) = Inr (PStr s)"
  "transcript_file_uri (job_response s) = Inr (PStr ''https://s3/t.json'')"
  by (simp_all add: job_status_def transcript_file_uri_def job_response_def then_do_def)

lemma transcript_document_field:
  "transcript_field transcript_document = Inr (PStr ''hello world'')"
  by (simp add: transcript_field_def transcript_document_def then_do_def py_index_def)

lemma example_observed:
  "observed_status (example_world now final) k =
     Inr (PStr (if k < 2 then ''IN_PROGRESS'' else final))"
  by (simp add: observed_status_def example_world_simps job_response_simps then_do_def)

lemma example_pending:
  "\<forall>j<2. pending (observed_status (example_world now final) j)"
  by (simp add: example_observed pending_def terminal_def)

lemma example_completed:
  "transcribe_audio (example_world now ''COMPLETED'') 5 url =
     Some ([TimeTime, StartTranscriptionJob (job_name now) url ''mp3'' ''en-US'',
            GetTranscriptionJob (job_name now), TimeSleep 5,
            GetTranscriptionJob (job_name now), TimeSleep 5,
            GetTranscriptionJob (job_name now),
            RequestsGet (PStr ''https://s3/t.json''), ResponseJson],
           Inr (PStr ''hello world''))"
  using transcribe_audio_completed [of "example_world now ''COMPLETED''" url 2 5
      "job_response ''COMPLETED''" "PStr ''https://s3/t.json''" transcript_document
      "PStr ''hello world''"]
    example_pending [of now "''COMPLETED''"]
  by (simp add: example_world_simps job_response_simps transcript_document_field
      waiting_rounds_def numeral_2_eq_2)

text \<open>
  C2: \<^verbatim>\<open>transcribe_audio\<close> returns a transcript only when a query has observed the
  status COMPLETED, every earlier query having observed a status that is neither
  COMPLETED nor FAILED; when the first terminal status observed is FAILED it raises
  \<^verbatim>\<open>Exception("Transcription job failed.")\<close> and returns nothing; and while every
  status observed is SUBMITTED or IN_PROGRESS it returns no transcript.
\<close>

theorem transcribe_audio_only_after_terminal:
  "(transcribe_audio w fuel url = Some (es, Inr t) \<longrightarrow>
      (\<exists>n<fuel. observed_status w n = Inr (PStr ''COMPLETED'') \<and>
         (\<forall>j<n. pending (observed_status w j)))) \<and>
   (start_transcription_job w (job_name (time_time w)) url ''mp3'' ''en-US'' = None \<and>
    n < fuel \<and> (\<forall>j<n. pending (observed_status w j)) \<and>
    observed_status w n = Inr (PStr ''FAILED'') \<longrightarrow>
      (\<exists>es'. transcribe_audio w fuel url =
         Some (es', Inl (PyExn Exception ''Transcription job failed.'')))) \<and>
   ((\<forall>j<fuel. observed_status w j = Inr (PStr ''SUBMITTED'') \<or>
               observed_status w j = Inr (PStr ''IN_PROGRESS'')) \<longrightarrow>
      (\<forall>es' t'. transcribe_audio w fuel url \<noteq> Some (es', Inr t')))"
proof (intro conjI impI)
  assume "transcribe_audio w fuel url = Some (es, Inr t)"
  from transcribe_audio_sound [OF this] obtain n status where
    "n < fuel" "\<forall>j<n. pending (observed_status w j)"
    "get_transcription_job w (job_name (time_time w)) n = Inr status"
    "job_status status = Inr (PStr ''COMPLETED'')"
    by blast
  then show "\<exists>n<fuel. observed_status w n = Inr (PStr ''COMPLETED'') \<and>
         (\<forall>j<n. pending (observed_status w j))"
    by (intro exI [of _ n]) (simp add: observed_status_def then_do_def)
next
  assume "start_transcription_job w (job_name (time_time w)) url ''mp3'' ''en-US'' = None \<and>
    n < fuel \<and> (\<forall>j<n. pending (observed_status w j)) \<and>
    observed_status w n = Inr (PStr ''FAILED'')"
  then show "\<exists>es'. transcribe_audio w fuel url =
         Some (es', Inl (PyExn Exception ''Transcription job failed.''))"
    using transcribe_audio_failed [of w url n fuel] by blast
next
  assume waiting: "\<forall>j<fuel. observed_status w j = Inr (PStr ''SUBMITTED'') \<or>
               observed_status w j = Inr (PStr ''IN_PROGRESS'')"
  show "\<forall>es' t'. transcribe_audio w fuel url \<noteq> Some (es', Inr t')"
  proof (intro allI notI)
    fix es' t'
    assume "transcribe_audio w fuel url = Some (es', Inr t')"
    from transcribe_audio_sound [OF this] obtain n status where
      "n < fuel" "get_transcription_job w (job_name (time_time w)) n = Inr status"
      "job_status status = Inr (PStr ''COMPLETED'')"
      by blast
    then have "n < fuel" "observed_status w n = Inr (PStr ''COMPLETED'')"
      by (simp_all add: observed_status_def then_do_def)
    with waiting show False by auto
  qed
qed

theorem transcribe_audio_only_after_terminal_witness:
  "transcribe_audio (example_world 1700000000.25 ''COMPLETED'') 5 ''https://bucket/call.mp3'' =
     Some ([TimeTime,
            StartTranscriptionJob ''transcription_job_1700000000'' ''https://bucket/call.mp3''
              ''mp3'' ''en-US'',
            GetTranscriptionJob ''transcription_job_1700000000'', TimeSleep 5,
            GetTranscriptionJob ''transcription_job_1700000000'', TimeSleep 5,
            GetTranscriptionJob ''transcription_job_1700000000'',
            RequestsGet (PStr ''https://s3/t.json''), ResponseJson],
           Inr (PStr ''hello world'')) \<and>
   (\<exists>n<5. observed_status (example_world 1700000000.25 ''COMPLETED'') n =
        Inr (PStr ''COMPLETED'') \<and>
      (\<forall>j<n. pending (observed_status (example_world 1700000000.25 ''COMPLETED'') j))) \<and>
   (\<exists>es'. transcribe_audio (example_world 1700000000.25 ''FAILED'') 5
        ''https://bucket/call.mp3'' =
      Some (es', Inl (PyExn Exception ''Transcription job failed.''))) \<and>
   (\<forall>es' t'. transcribe_audio (example_world 1700000000.25 ''COMPLETED'') 2
        ''https://bucket/call.mp3'' \<noteq> Some (es', Inr t'))"
proof -
  let ?w = "example_world 1700000000.25 ''COMPLETED''"
  let ?f = "example_world 1700000000.25 ''FAILED''"
  let ?url = "''https://bucket/call.mp3''"
  let ?es = "[TimeTime,
            StartTranscriptionJob ''transcription_job_1700000000'' ?url ''mp3'' ''en-US'',
            GetTranscriptionJob ''transcription_job_1700000000'', TimeSleep 5,
            GetTranscriptionJob ''transcription_job_1700000000'', TimeSleep 5,
            GetTranscriptionJob ''transcription_job_1700000000'',
            RequestsGet (PStr ''https://s3/t.json''), ResponseJson]"
  have run: "transcribe_audio ?w 5 ?url = Some (?es, Inr (PStr ''hello world''))"
    by (simp only: example_completed example_job_name)
  have failed: "start_transcription_job ?f (job_name (time_time ?f)) ?url ''mp3'' ''en-US'' = None \<and>
      (2::nat) < 5 \<and> (\<forall>j<2. pending (observed_status ?f j)) \<and>
      observed_status ?f 2 = Inr (PStr ''FAILED'')"
    using example_pending [of "1700000000.25" "''FAILED''"]
    by (simp add: example_world_simps example_observed)
  have waiting: "\<forall>j<2. observed_status ?w j = Inr (PStr ''SUBMITTED'') \<or>
      observed_status ?w j = Inr (PStr ''IN_PROGRESS'')"
    by (simp add: example_observed)
  from transcribe_audio_only_after_terminal [of ?w 5 ?url ?es "PStr ''hello world''"] run
  have a: "\<exists>n<5. observed_status ?w n = Inr (PStr ''COMPLETED'') \<and>
      (\<forall>j<n. pending (observed_status ?w j))"
    by blast
  from transcribe_audio_only_after_terminal [of ?f 5 ?url _ _ 2] failed
  have b: "\<exists>es'. transcribe_audio ?f 5 ?url =
      Some (es', Inl (PyExn Exception ''Transcription job failed.''))"
    by blast
  from transcribe_audio_only_after_terminal [of ?w 2 ?url] waiting
  have c: "\<forall>es' t'. transcribe_audio ?w 2 ?url \<noteq> Some (es', Inr t')"
    by blast
  from run a b c show ?thesis by blast
qed


subsection \<open>The result document\<close>

lemma getitem_key_Inr_iff:
  "getitem_key v key = Inr x \<longleftrightarrow> (\<exists>items. v = PDict items \<and> map_of items key = Some x)"
  by (cases v) (auto split: option.splits)

lemma getitem_index_first:
  assumes "getitem_index v 0 = Inr x" and "getitem_key x key = Inr t"
  shows "\<exists>first others. v = PList (PDict first # others) \<and> map_of first key = Some t"
proof (cases v)
  case (PList xs)
  with assms(1) obtain others where "xs = x # others"
    by (cases xs) (auto simp: py_index_def split: if_splits)
  with PList assms(2) show ?thesis
    by (auto simp: getitem_key_Inr_iff)
next
  case (PStr s)
  with assms show ?thesis
    by (auto simp: py_index_def split: option.splits if_splits)
qed (use assms in simp_all)

lemma job_status_Inr_iff:
  "job_status status = Inr s \<longleftrightarrow>
     (\<exists>st job. status = PDict st \<and> map_of st ''TranscriptionJob'' = Some (PDict job) \<and>
        map_of job ''TranscriptionJobStatus'' = Some s)"
  by (auto simp: job_status_def then_do_def getitem_key_Inr_iff split: sum.splits)

lemma transcript_file_uri_Inr_iff:
  "transcript_file_uri status = Inr u \<longleftrightarrow>
     (\<exists>st job tr. status = PDict st \<and> map_of st ''TranscriptionJob'' = Some (PDict job) \<and>
        map_of job ''Transcript'' = Some (PDict tr) \<and>
        map_of tr ''TranscriptFileUri'' = Some u)"
  by (auto simp: transcript_file_uri_def then_do_def getitem_key_Inr_iff split: sum.splits)

lemma transcript_field_first:
  assumes "map_of d ''results'' = Some (PDict rs)"
    and "map_of rs ''transcripts'' = Some (PList (PDict first # others))"
    and "map_of first ''transcript'' = Some t"
  shows "transcript_field (PDict d) = Inr t"
  using assms by (simp add: transcript_field_def then_do_def py_index_def)

lemma transcript_field_Inr:
  assumes "transcript_field doc = Inr t"
  shows "\<exists>d rs first others. doc = PDict d \<and> map_of d ''results'' = Some (PDict rs) \<and>
           map_of rs ''transcripts'' = Some (PList (PDict first # others)) \<and>
           map_of first ''transcript'' = Some t"
proof -
  from assms obtain r ts x where
    r: "getitem_key doc ''results'' = Inr r" and
    ts: "getitem_key r ''transcripts'' = Inr ts" and
    x: "getitem_index ts 0 = Inr x" and
    t: "getitem_key x ''transcript'' = Inr t"
    by (auto simp: transcript_field_def then_do_def split: sum.splits)
  from getitem_index_first [OF x t] obtain first others where
    "ts = PList (PDict first # others)" "map_of first ''transcript'' = Some t"
    by blast
  with r ts show ?thesis
    by (auto simp: getitem_key_Inr_iff)
qed

lemma log_and_reraise_eq:
  "log_and_reraise msg x =
     (fst x @ (case snd x of
                 Inr v \<Rightarrow> []
               | Inl e \<Rightarrow> if isinstance_Exception e then [Log ERROR msg (ArgExn e)] else []),
      snd x)"
  by (simp add: prod_eq_iff log_and_reraise_fst log_and_reraise_snd)

lemma transcribe_audio_fetches:
  assumes "start_transcription_job w (job_name (time_time w)) url ''mp3'' ''en-US'' = None"
    and "n < fuel"
    and "\<forall>j<n. pending (observed_status w j)"
    and "get_transcription_job w (job_name (time_time w)) n = Inr (PDict st)"
    and "map_of st ''TranscriptionJob'' = Some (PDict job)"
    and "map_of job ''TranscriptionJobStatus'' = Some (PStr ''COMPLETED'')"
    and "map_of job ''Transcript'' = Some (PDict tr)"
    and "map_of tr ''TranscriptFileUri'' = Some u"
  shows "\<exists>tail r. transcribe_audio w fuel url =
           Some ([TimeTime, StartTranscriptionJob (job_name (time_time w)) url ''mp3'' ''en-US'']
                   @ waiting_rounds (job_name (time_time w)) n
                   @ [GetTranscriptionJob (job_name (time_time w)), RequestsGet u] @ tail, r) \<and>
           filter is_fetch tail = [] \<and> filter is_poll_step tail = [] \<and>
           (\<forall>e. requests_get w u = Inl e \<longrightarrow> r = Inl e) \<and>
           (\<forall>e. requests_get w u = Inr (Inl e) \<longrightarrow> r = Inl e) \<and>
           (\<forall>d rs first others t.
              requests_get w u = Inr (Inr (PDict d)) \<and>
              map_of d ''results'' = Some (PDict rs) \<and>
              map_of rs ''transcripts'' = Some (PList (PDict first # others)) \<and>
              map_of first ''transcript'' = Some t \<longrightarrow>
                r = Inr t \<and> tail = [ResponseJson])"
proof -
  let ?name = "job_name (time_time w)"
  let ?msg = "''Error transcribing audio with AWS Transcribe: ''"
  define t0 where "t0 = (case requests_get w u of Inl e \<Rightarrow> [] | Inr x \<Rightarrow> [ResponseJson])"
  define r where "r = (case requests_get w u of
                         Inl e \<Rightarrow> Inl e
                       | Inr (Inl e) \<Rightarrow> Inl e
                       | Inr (Inr doc) \<Rightarrow> transcript_field doc)"
  define lg where "lg = (case r of
                           Inr v \<Rightarrow> []
                         | Inl e \<Rightarrow> if isinstance_Exception e
                                    then [Log ERROR ?msg (ArgExn e)] else [])"
  have js: "job_status (PDict st) = Inr (PStr ''COMPLETED'')"
    using assms(5,6) by (simp add: job_status_Inr_iff)
  have uri: "transcript_file_uri (PDict st) = Inr u"
    using assms(5,7,8) by (simp add: transcript_file_uri_Inr_iff)
  have fin: "terminal (PStr ''COMPLETED'')"
    by (simp add: terminal_def)
  have ft: "after_poll w (PDict st) = (RequestsGet u # t0, r)"
    using js uri
    by (simp add: after_poll_def fetch_transcript_def t0_def r_def split: sum.splits)
  have run: "transcribe_audio w fuel url =
      Some ([TimeTime, StartTranscriptionJob ?name url ''mp3'' ''en-US'']
              @ waiting_rounds ?name n
              @ [GetTranscriptionJob ?name, RequestsGet u] @ (t0 @ lg), r)"
    using transcribe_audio_polls [OF assms(1-4) js fin]
    by (simp add: ft log_and_reraise_eq lg_def)
  have no_fetch: "filter is_fetch (t0 @ lg) = []"
    by (simp add: t0_def lg_def split: sum.splits)
  have no_poll: "filter is_poll_step (t0 @ lg) = []"
    by (simp add: t0_def lg_def split: sum.splits)
  have raise1: "\<forall>e. requests_get w u = Inl e \<longrightarrow> r = Inl e"
    by (simp add: r_def)
  have raise2: "\<forall>e. requests_get w u = Inr (Inl e) \<longrightarrow> r = Inl e"
    by (simp add: r_def)
  have field: "\<forall>d rs first others t.
      requests_get w u = Inr (Inr (PDict d)) \<and>
      map_of d ''results'' = Some (PDict rs) \<and>
      map_of rs ''transcripts'' = Some (PList (PDict first # others)) \<and>
      map_of first ''transcript'' = Some t \<longrightarrow>
        r = Inr t \<and> t0 @ lg = [ResponseJson]"
  proof (intro allI impI)
    fix d rs first others t
    assume a: "requests_get w u = Inr (Inr (PDict d)) \<and>
      map_of d ''results'' = Some (PDict rs) \<and>
      map_of rs ''transcripts'' = Some (PList (PDict first # others)) \<and>
      map_of first ''transcript'' = Some t"
    then have "transcript_field (PDict d) = Inr t"
      using transcript_field_first [of d rs first others t] by blast
    with a show "r = Inr t \<and> t0 @ lg = [ResponseJson]"
      by (simp add: r_def t0_def lg_def)
  qed
  from run no_fetch no_poll raise1 raise2 field show ?thesis
    by blast
qed

text \<open>
  C4: when the queries observe non-terminal statuses \<open>n\<close> times and then a response
  whose status is COMPLETED and which names the result document at
  \<^verbatim>\<open>Transcript.TranscriptFileUri\<close>, \<^verbatim>\<open>transcribe_audio\<close> makes \<open>n\<close> rounds of one query
  followed by \<^verbatim>\<open>time.sleep(5)\<close>, one last query and exactly one \<^verbatim>\<open>requests.get\<close> of
  that address, whatever the fetch answers; no query, sleep or fetch follows. When the
  fetch or the parsing of the body raises, that is the result. When the parsed body is
  an object whose \<^verbatim>\<open>results.transcripts\<close> is a list that starts with an object, the
  value returned is the \<^verbatim>\<open>transcript\<close> member of that first object. Conversely every
  run that returns a transcript is of this kind.
\<close>

theorem transcribe_audio_polls_then_fetches_once:
  "(start_transcription_job w (job_name (time_time w)) url ''mp3'' ''en-US'' = None \<and>
    n < fuel \<and> (\<forall>j<n. pending (observed_status w j)) \<and>
    get_transcription_job w (job_name (time_time w)) n = Inr (PDict st) \<and>
    map_of st ''TranscriptionJob'' = Some (PDict job) \<and>
    map_of job ''TranscriptionJobStatus'' = Some (PStr ''COMPLETED'') \<and>
    map_of job ''Transcript'' = Some (PDict tr) \<and>
    map_of tr ''TranscriptFileUri'' = Some u \<longrightarrow>
      (\<exists>tail r. transcribe_audio w fuel url =
         Some ([TimeTime, StartTranscriptionJob (job_name (time_time w)) url ''mp3'' ''en-US'']
                 @ waiting_rounds (job_name (time_time w)) n
                 @ [GetTranscriptionJob (job_name (time_time w)), RequestsGet u] @ tail, r) \<and>
         filter is_fetch tail = [] \<and> filter is_poll_step tail = [] \<and>
         (\<forall>e. requests_get w u = Inl e \<longrightarrow> r = Inl e) \<and>
         (\<forall>e. requests_get w u = Inr (Inl e) \<longrightarrow> r = Inl e) \<and>
         (\<forall>d rs first others t.
            requests_get w u = Inr (Inr (PDict d)) \<and>
            map_of d ''results'' = Some (PDict rs) \<and>
            map_of rs ''transcripts'' = Some (PList (PDict first # others)) \<and>
            map_of first ''transcript'' = Some t \<longrightarrow>
              r = Inr t \<and> tail = [ResponseJson]))) \<and>
   (transcribe_audio w fuel url = Some (es, Inr t') \<longrightarrow>
      length (filter is_fetch es) = 1 \<and>
      (\<exists>m st' job' tr' u' d rs first others. m < fuel \<and>
         get_transcription_job w (job_name (time_time w)) m = Inr (PDict st') \<and>
         map_of st' ''TranscriptionJob'' = Some (PDict job') \<and>
         map_of job' ''TranscriptionJobStatus'' = Some (PStr ''COMPLETED'') \<and>
         map_of job' ''Transcript'' = Some (PDict tr') \<and>
         map_of tr' ''TranscriptFileUri'' = Some u' \<and>
         requests_get w u' = Inr (Inr (PDict d)) \<and>
         map_of d ''results'' = Some (PDict rs) \<and>
         map_of rs ''transcripts'' = Some (PList (PDict first # others)) \<and>
         map_of first ''transcript'' = Some t' \<and>
         es = [TimeTime, StartTranscriptionJob (job_name (time_time w)) url ''mp3'' ''en-US'']
                @ waiting_rounds (job_name (time_time w)) m
                @ [GetTranscriptionJob (job_name (time_time w)), RequestsGet u', ResponseJson]))"
proof (intro conjI impI)
  assume "start_transcription_job w (job_name (time_time w)) url ''mp3'' ''en-US'' = None \<and>
    n < fuel \<and> (\<forall>j<n. pending (observed_status w j)) \<and>
    get_transcription_job w (job_name (time_time w)) n = Inr (PDict st) \<and>
    map_of st ''TranscriptionJob'' = Some (PDict job) \<and>
    map_of job ''TranscriptionJobStatus'' = Some (PStr ''COMPLETED'') \<and>
    map_of job ''Transcript'' = Some (PDict tr) \<and>
    map_of tr ''TranscriptFileUri'' = Some u"
  then show "\<exists>tail r. transcribe_audio w fuel url =
         Some ([TimeTime, StartTranscriptionJob (job_name (time_time w)) url ''mp3'' ''en-US'']
                 @ waiting_rounds (job_name (time_time w)) n
                 @ [GetTranscriptionJob (job_name (time_time w)), RequestsGet u] @ tail, r) \<and>
         filter is_fetch tail = [] \<and> filter is_poll_step tail = [] \<and>
         (\<forall>e. requests_get w u = Inl e \<longrightarrow> r = Inl e) \<and>
         (\<forall>e. requests_get w u = Inr (Inl e) \<longrightarrow> r = Inl e) \<and>
         (\<forall>d rs first others t.
            requests_get w u = Inr (Inr (PDict d)) \<and>
            map_of d ''results'' = Some (PDict rs) \<and>
            map_of rs ''transcripts'' = Some (PList (PDict first # others)) \<and>
            map_of first ''transcript'' = Some t \<longrightarrow>
              r = Inr t \<and> tail = [ResponseJson])"
    using transcribe_audio_fetches [of w url n fuel st job tr u] by blast
next
  assume run: "transcribe_audio w fuel url = Some (es, Inr t')"
  from transcribe_audio_sound [OF run] obtain m status u' doc where m:
    "m < fuel" "get_transcription_job w (job_name (time_time w)) m = Inr status"
    "job_status status = Inr (PStr ''COMPLETED'')"
    "transcript_file_uri status = Inr u'"
    "requests_get w u' = Inr (Inr doc)"
    "transcript_field doc = Inr t'"
    "es = [TimeTime, StartTranscriptionJob (job_name (time_time w)) url ''mp3'' ''en-US'']
                @ waiting_rounds (job_name (time_time w)) m
                @ [GetTranscriptionJob (job_name (time_time w)), RequestsGet u', ResponseJson]"
    by blast
  from m(7) show "length (filter is_fetch es) = 1"
    by (simp add: waiting_rounds_no_fetch)
  from m(4) obtain st' job' tr' where s:
    "status = PDict st'" "map_of st' ''TranscriptionJob'' = Some (PDict job')"
    "map_of job' ''Transcript'' = Some (PDict tr')" "map_of tr' ''TranscriptFileUri'' = Some u'"
    unfolding transcript_file_uri_Inr_iff by blast
  from m(3) s(1,2) have c: "map_of job' ''TranscriptionJobStatus'' = Some (PStr ''COMPLETED'')"
    by (auto simp: job_status_Inr_iff)
  from transcript_field_Inr [OF m(6)] obtain d rs first others where d:
    "doc = PDict d" "map_of d ''results'' = Some (PDict rs)"
    "map_of rs ''transcripts'' = Some (PList (PDict first # others))"
    "map_of first ''transcript'' = Some t'"
    by blast
  from m(1,2,5,7) s c d show "\<exists>m st' job' tr' u' d rs first others. m < fuel \<and>
         get_transcription_job w (job_name (time_time w)) m = Inr (PDict st') \<and>
         map_of st' ''TranscriptionJob'' = Some (PDict job') \<and>
         map_of job' ''TranscriptionJobStatus'' = Some (PStr ''COMPLETED'') \<and>
         map_of job' ''Transcript'' = Some (PDict tr') \<and>
         map_of tr' ''TranscriptFileUri'' = Some u' \<and>
         requests_get w u' = Inr (Inr (PDict d)) \<and>
         map_of d ''results'' = Some (PDict rs) \<and>
         map_of rs ''transcripts'' = Some (PList (PDict first # others)) \<and>
         map_of first ''transcript'' = Some t' \<and>
         es = [TimeTime, StartTranscriptionJob (job_name (time_time w)) url ''mp3'' ''en-US'']
                @ waiting_rounds (job_name (time_time w)) m
                @ [GetTranscriptionJob (job_name (time_time w)), RequestsGet u', ResponseJson]"
    by blast
qed

lemma unreachable_world_simps:
  "time_time (unreachable_world now) = now"
  "start_transcription_job (unreachable_world now) name uri format language = None"
  "get_transcription_job (unreachable_world now) name k =
     Inr (job_response (if k < 2 then ''IN_PROGRESS'' else ''COMPLETED''))"
  "requests_get (unreachable_world now) u = Inl (PyExn ProviderError ''connection refused'')"
  by (simp_all add: unreachable_world_def)

lemma unreachable_pending:
  "\<forall>j<2. pending (observed_status (unreachable_world now) j)"
  by (simp add: observed_status_def unreachable_world_simps job_response_simps then_do_def
      pending_def terminal_def)

lemma two_waiting_rounds:
  "[TimeTime, StartTranscriptionJob name url ''mp3'' ''en-US'']
     @ waiting_rounds name 2 @ [GetTranscriptionJob name, RequestsGet u] @ tail =
   [TimeTime, StartTranscriptionJob name url ''mp3'' ''en-US'',
    GetTranscriptionJob name, TimeSleep 5, GetTranscriptionJob name, TimeSleep 5,
    GetTranscriptionJob name, RequestsGet u] @ tail"
  by (simp add: waiting_rounds_def numeral_2_eq_2)

theorem transcribe_audio_polls_then_fetches_once_witness:
  "transcribe_audio (example_world 1700000000.25 ''COMPLETED'') 5 ''https://bucket/call.mp3'' =
     Some ([TimeTime,
            StartTranscriptionJob (job_name 1700000000.25) ''https://bucket/call.mp3''
              ''mp3'' ''en-US'',
            GetTranscriptionJob (job_name 1700000000.25), TimeSleep 5,
            GetTranscriptionJob (job_name 1700000000.25), TimeSleep 5,
            GetTranscriptionJob (job_name 1700000000.25),
            RequestsGet (PStr ''https://s3/t.json'')] @ [ResponseJson],
           Inr (PStr ''hello world'')) \<and>
   (\<exists>tail. transcribe_audio (unreachable_world 1700000000.25) 5 ''https://bucket/call.mp3'' =
      Some ([TimeTime,
             StartTranscriptionJob (job_name 1700000000.25) ''https://bucket/call.mp3''
               ''mp3'' ''en-US'',
             GetTranscriptionJob (job_name 1700000000.25), TimeSleep 5,
             GetTranscriptionJob (job_name 1700000000.25), TimeSleep 5,
             GetTranscriptionJob (job_name 1700000000.25),
             RequestsGet (PStr ''https://s3/t.json'')] @ tail,
            Inl (PyExn ProviderError ''connection refused'')) \<and>
      filter is_fetch tail = [] \<and> filter is_poll_step tail = []) \<and>
   length (filter is_fetch
     ([TimeTime,
       StartTranscriptionJob (job_name 1700000000.25) ''https://bucket/call.mp3''
         ''mp3'' ''en-US'',
       GetTranscriptionJob (job_name 1700000000.25), TimeSleep 5,
       GetTranscriptionJob (job_name 1700000000.25), TimeSleep 5,
       GetTranscriptionJob (job_name 1700000000.25),
       RequestsGet (PStr ''https://s3/t.json'')] @ [ResponseJson])) = 1"
proof -
  let ?w = "example_world 1700000000.25 ''COMPLETED''"
  let ?x = "unreachable_world 1700000000.25"
  let ?url = "''https://bucket/call.mp3''"
  let ?name = "job_name 1700000000.25"
  let ?u = "PStr ''https://s3/t.json''"
  let ?tr = "[(''TranscriptFileUri'', ?u)]"
  let ?job = "[(''TranscriptionJobStatus'', PStr ''COMPLETED''), (''Transcript'', PDict ?tr)]"
  let ?st = "[(''TranscriptionJob'', PDict ?job)]"
  let ?first = "[(''transcript'', PStr ''hello world'')]"
  let ?others = "[PDict [(''transcript'', PStr ''goodbye'')]]"
  let ?rs = "[(''transcripts'', PList (PDict ?first # ?others))]"
  let ?d = "[(''jobName'', PStr ''transcription_job_1700000000''), (''results'', PDict ?rs)]"
  let ?es = "[TimeTime, StartTranscriptionJob ?name ?url ''mp3'' ''en-US'',
            GetTranscriptionJob ?name, TimeSleep 5,
            GetTranscriptionJob ?name, TimeSleep 5,
            GetTranscriptionJob ?name, RequestsGet ?u]"
  have name_w: "job_name (time_time ?w) = ?name"
    by (simp only: example_world_simps)
  have name_x: "job_name (time_time ?x) = ?name"
    by (simp only: unreachable_world_simps)
  have hyp_w: "start_transcription_job ?w (job_name (time_time ?w)) ?url ''mp3'' ''en-US'' = None \<and>
      (2::nat) < 5 \<and> (\<forall>j<2. pending (observed_status ?w j)) \<and>
      get_transcription_job ?w (job_name (time_time ?w)) 2 = Inr (PDict ?st) \<and>
      map_of ?st ''TranscriptionJob'' = Some (PDict ?job) \<and>
      map_of ?job ''TranscriptionJobStatus'' = Some (PStr ''COMPLETED'') \<and>
      map_of ?job ''Transcript'' = Some (PDict ?tr) \<and>
      map_of ?tr ''TranscriptFileUri'' = Some ?u"
    using example_pending [of "1700000000.25" "''COMPLETED''"]
    by (simp add: example_world_simps job_response_def)
  have hyp_x: "start_transcription_job ?x (job_name (time_time ?x)) ?url ''mp3'' ''en-US'' = None \<and>
      (2::nat) < 5 \<and> (\<forall>j<2. pending (observed_status ?x j)) \<and>
      get_transcription_job ?x (job_name (time_time ?x)) 2 = Inr (PDict ?st) \<and>
      map_of ?st ''TranscriptionJob'' = Some (PDict ?job) \<and>
      map_of ?job ''TranscriptionJobStatus'' = Some (PStr ''COMPLETED'') \<and>
      map_of ?job ''Transcript'' = Some (PDict ?tr) \<and>
      map_of ?tr ''TranscriptFileUri'' = Some ?u"
    using unreachable_pending [of "1700000000.25"]
    by (simp add: unreachable_world_simps job_response_def)
  have doc: "requests_get ?w ?u = Inr (Inr (PDict ?d)) \<and>
      map_of ?d ''results'' = Some (PDict ?rs) \<and>
      map_of ?rs ''transcripts'' = Some (PList (PDict ?first # ?others)) \<and>
      map_of ?first ''transcript'' = Some (PStr ''hello world'')"
    by (simp add: example_world_simps transcript_document_def)
  from transcribe_audio_polls_then_fetches_once
    [of ?w ?url 2 5 ?st ?job ?tr ?u, THEN conjunct1, THEN mp, OF hyp_w]
  obtain tail r where
    run: "transcribe_audio ?w 5 ?url =
      Some ([TimeTime, StartTranscriptionJob (job_name (time_time ?w)) ?url ''mp3'' ''en-US'']
        @ waiting_rounds (job_name (time_time ?w)) 2
        @ [GetTranscriptionJob (job_name (time_time ?w)), RequestsGet ?u] @ tail, r)" and
    fld: "\<forall>d rs first others t.
      requests_get ?w ?u = Inr (Inr (PDict d)) \<and>
      map_of d ''results'' = Some (PDict rs) \<and>
      map_of rs ''transcripts'' = Some (PList (PDict first # others)) \<and>
      map_of first ''transcript'' = Some t \<longrightarrow>
        r = Inr t \<and> tail = [ResponseJson]"
    by blast
  from fld [rule_format, of ?d ?rs ?first ?others "PStr ''hello world''", OF doc]
  have r: "r = Inr (PStr ''hello world'')" and tail: "tail = [ResponseJson]"
    by simp_all
  from run have a: "transcribe_audio ?w 5 ?url = Some (?es @ [ResponseJson], Inr (PStr ''hello world''))"
    by (simp only: name_w two_waiting_rounds r tail)
  from transcribe_audio_polls_then_fetches_once
    [of ?x ?url 2 5 ?st ?job ?tr ?u, THEN conjunct1, THEN mp, OF hyp_x]
  obtain tail' r' where
    run': "transcribe_audio ?x 5 ?url =
      Some ([TimeTime, StartTranscriptionJob (job_name (time_time ?x)) ?url ''mp3'' ''en-US'']
        @ waiting_rounds (job_name (time_time ?x)) 2
        @ [GetTranscriptionJob (job_name (time_time ?x)), RequestsGet ?u] @ tail', r')" and
    clean: "filter is_fetch tail' = []" "filter is_poll_step tail' = []" and
    raised: "\<forall>e. requests_get ?x ?u = Inl e \<longrightarrow> r' = Inl e"
    by blast
  from raised have r': "r' = Inl (PyExn ProviderError ''connection refused'')"
    by (simp add: unreachable_world_simps)
  from run' have "transcribe_audio ?x 5 ?url =
      Some (?es @ tail', Inl (PyExn ProviderError ''connection refused''))"
    by (simp only: name_x two_waiting_rounds r')
  with clean have b: "\<exists>tail. transcribe_audio ?x 5 ?url =
      Some (?es @ tail, Inl (PyExn ProviderError ''connection refused'')) \<and>
      filter is_fetch tail = [] \<and> filter is_poll_step tail = []"
    by blast
  from transcribe_audio_polls_then_fetches_once
    [of ?w ?url _ 5 _ _ _ _ "?es @ [ResponseJson]" "PStr ''hello world''",
      THEN conjunct2, THEN mp, OF a]
  have c: "length (filter is_fetch (?es @ [ResponseJson])) = 1"
    by (rule conjunct1)
  from a b c show ?thesis
    by (intro conjI)
qed

subsection \<open>Job names\<close>

lemma digit_inj:
  assumes "a < 10" "b < 10" "digit a = digit b"
  shows "a = b"
proof -
  have "distinct ''0123456789''" by simp
  moreover have "a < length ''0123456789''" "b < length ''0123456789''"
    using assms by simp_all
  ultimately show ?thesis
    using assms(3) unfolding digit_def by (simp only: nth_eq_iff_index_eq)
qed

lemma str_nat_small: "n < 10 \<Longrightarrow> str_nat n = [digit n]"
  by (simp add: str_nat.simps)

lemma str_nat_large:
  "\<not> n < 10 \<Longrightarrow> str_nat n = str_nat (n div 10) @ [digit (n mod 10)]"
  by (subst str_nat.simps) simp

lemma str_nat_not_Nil: "str_nat n \<noteq> []"
  by (cases "n < 10") (simp_all add: str_nat_small str_nat_large)

lemma str_nat_inj: "str_nat m = str_nat n \<Longrightarrow> m = n"
proof (induction m arbitrary: n rule: less_induct)
  case (less m)
  show ?case
  proof (cases "m < 10")
    case True
    show ?thesis
    proof (cases "n < 10")
      case nsmall: True
      with True less.prems show ?thesis
        by (simp add: str_nat_small digit_inj)
    next
      case False
      with True less.prems str_nat_not_Nil [of "n div 10"] show ?thesis
        by (simp add: str_nat_small str_nat_large)
    qed
  next
    case mlarge: False
    show ?thesis
    proof (cases "n < 10")
      case True
      with mlarge less.prems str_nat_not_Nil [of "m div 10"] show ?thesis
        by (simp add: str_nat_small str_nat_large)
    next
      case False
      with mlarge less.prems have
        "str_nat (m div 10) = str_nat (n div 10)" "digit (m mod 10) = digit (n mod 10)"
        by (simp_all add: str_nat_large)
      moreover have "m div 10 < m" using mlarge by simp
      ultimately have "m div 10 = n div 10" "m mod 10 = n mod 10"
        using less.IH digit_inj [of "m mod 10" "n mod 10"] by simp_all
      then show ?thesis
        by (metis div_mult_mod_eq)
    qed
  qed
qed

lemma digit_not_minus: "d < 10 \<Longrightarrow> digit d \<noteq> CHR ''-''"
proof -
  assume "d < 10"
  then have "digit d \<in> set ''0123456789''"
    unfolding digit_def by (intro nth_mem) simp
  then show ?thesis by auto
qed

lemma hd_str_nat: "hd (str_nat n) \<noteq> CHR ''-''"
proof (induction n rule: less_induct)
  case (less n)
  show ?case
  proof (cases "n < 10")
    case True
    then show ?thesis by (simp add: str_nat_small digit_not_minus)
  next
    case False
    then have "n div 10 < n" by simp
    with less.IH [of "n div 10"] False str_nat_not_Nil [of "n div 10"] show ?thesis
      by (simp add: str_nat_large)
  qed
qed

lemma str_int_inj: "str_int i = str_int j \<Longrightarrow> i = j"
proof -
  assume eq: "str_int i = str_int j"
  have neg_pos: "CHR ''-'' # str_nat a \<noteq> str_nat b" for a b
    using hd_str_nat [of b] by (metis list.sel(1))
  show ?thesis
  proof (cases "i < 0"; cases "j < 0")
    assume "i < 0" "j < 0"
    with eq have "nat (- i) = nat (- j)" by (simp add: str_int_def str_nat_inj)
    with \<open>i < 0\<close> \<open>j < 0\<close> show ?thesis by simp
  next
    assume "i < 0" "\<not> j < 0"
    with eq neg_pos show ?thesis by (simp add: str_int_def)
  next
    assume "\<not> i < 0" "j < 0"
    with eq neg_pos [of "nat (- j)" "nat i"] show ?thesis by (simp add: str_int_def)
  next
    assume "\<not> i < 0" "\<not> j < 0"
    with eq have "nat i = nat j" by (simp add: str_int_def str_nat_inj)
    with \<open>\<not> i < 0\<close> \<open>\<not> j < 0\<close> show ?thesis by simp
  qed
qed

text \<open>Two job names are equal exactly when the clock readings truncate to the same second.\<close>

lemma job_name_eq_iff: "job_name a = job_name b \<longleftrightarrow> py_int a = py_int b"
  by (auto simp: job_name_def dest: str_int_inj)

text \<open>
  C3 (the code at the failing input): two invocations whose clock readings fall within
  the same second, 1700000000.25 and 1700000000.75, build the same job name, and both
  submit a job under it.
\<close>

theorem job_name_same_second_collision:
  "job_name 1700000000.25 = ''transcription_job_1700000000'' \<and>
   job_name 1700000000.75 = ''transcription_job_1700000000'' \<and>
   (\<exists>es r. transcribe_audio (example_world 1700000000.25 ''COMPLETED'') 5 ''https://bucket/a.mp3'' =
      Some (TimeTime # StartTranscriptionJob ''transcription_job_1700000000''
              ''https://bucket/a.mp3'' ''mp3'' ''en-US'' # es, r)) \<and>
   (\<exists>es r. transcribe_audio (example_world 1700000000.75 ''COMPLETED'') 5 ''https://bucket/b.mp3'' =
      Some (TimeTime # StartTranscriptionJob ''transcription_job_1700000000''
              ''https://bucket/b.mp3'' ''mp3'' ''en-US'' # es, r))"
  by (simp only: example_completed example_job_name) blast

end
